theory Spec2Isabelle
  imports Complex_Main
begin

section \<open>Python values and the built-ins the collector relies on\<close>

text \<open>
  The records handed to \<^verbatim>\<open>JsonDataCollector.add\<close> are JSON-like Python objects: \<^verbatim>\<open>None\<close>,
  booleans, integers, floats, strings, lists and dictionaries with string keys. A
  dictionary is kept as an association list in insertion order (\<^verbatim>\<open>list(d)\<close> enumerates
  its keys in that order); a lookup takes the first binding of a key.

  A float is represented by the exact rational it denotes, by an infinity, or by NaN.
  Rounding to binary64 and overflow to infinity are not represented.
\<close>

datatype pyfloat = FNaN | FInf bool | FNum rat

datatype pyval =
    PNone
  | PBool bool
  | PInt int
  | PFloat pyfloat
  | PStr string
  | PList "pyval list"
  | PDict "(string \<times> pyval) list"

text \<open>
  The exceptions that can arise on the paths modelled here. \<open>SqliteError\<close> stands for
  every \<^verbatim>\<open>sqlite3.Error\<close>; \<open>UserError\<close> for an exception raised by a callable supplied by
  the user (value parser, validator, converter, error handler). All of them derive from
  Python's \<^verbatim>\<open>Exception\<close>.
\<close>

datatype pyexc =
    RuntimeError
  | ValueError
  | TypeError
  | IndexError
  | KeyError
  | OverflowError
  | ZeroDivisionError
  | SqliteError
  | UserError nat

text \<open>
  \<^verbatim>\<open>str\<close> and \<^verbatim>\<open>hashlib.md5(...).hexdigest()\<close> are library functions, not code of the
  repository: they are parameters of the model, and every general theorem below holds
  for all of them.
\<close>

record pyenv =
  py_str :: "pyval \<Rightarrow> string"
  md5_hexdigest :: "string \<Rightarrow> string"

subsection \<open>Indexing\<close>

text \<open>
  The subscript \<^verbatim>\<open>xs[i]\<close> of a list or a tuple. The indices \<open>-1, ..., -len\<close> address the
  elements from the last one backwards.
\<close>

definition py_index :: "'a list \<Rightarrow> int \<Rightarrow> pyexc + 'a" where
  "py_index xs i =
     (if 0 \<le> i \<and> i < int (length xs) then Inr (xs ! nat i)
      else if i < 0 \<and> - int (length xs) \<le> i then Inr (xs ! nat (int (length xs) + i))
      else Inl IndexError)"

subsection \<open>The operator \<^verbatim>\<open>!=\<close>\<close>

text \<open>
  Booleans, integers and floats compare by numeric value (\<^verbatim>\<open>True == 1 == 1.0\<close>), and NaN
  differs from everything, itself included. Containers are compared structurally; they
  never reach the duplicate index, since the storage rejects them before a bucket is
  written.
\<close>

fun py_number :: "pyval \<Rightarrow> pyfloat option" where
  "py_number (PBool b) = Some (FNum (if b then 1 else 0))"
| "py_number (PInt n) = Some (FNum (of_int n))"
| "py_number (PFloat f) = Some f"
| "py_number v = None"

fun float_eq :: "pyfloat \<Rightarrow> pyfloat \<Rightarrow> bool" where
  "float_eq (FNum p) (FNum q) = (p = q)"
| "float_eq (FInf a) (FInf b) = (a = b)"
| "float_eq x y = False"

definition py_ne :: "pyval \<Rightarrow> pyval \<Rightarrow> bool" where
  "py_ne x y =
     (case (py_number x, py_number y) of
        (Some p, Some q) \<Rightarrow> \<not> float_eq p q
      | (Some p, None) \<Rightarrow> True
      | (None, Some q) \<Rightarrow> True
      | (None, None) \<Rightarrow> x \<noteq> y)"

subsection \<open>\<^verbatim>\<open>str.split\<close>, \<^verbatim>\<open>int\<close> and \<^verbatim>\<open>float\<close>\<close>

text \<open>\<^verbatim>\<open>s.split(c)\<close> for a one-character separator: \<^verbatim>\<open>"".split(".")\<close> is \<^verbatim>\<open>[""]\<close>.\<close>

fun py_split :: "char \<Rightarrow> string \<Rightarrow> string list" where
  "py_split c [] = [[]]"
| "py_split c (x # xs) =
     (if x = c then [] # py_split c xs
      else (case py_split c xs of [] \<Rightarrow> [[x]] | w # ws \<Rightarrow> (x # w) # ws))"

definition is_space :: "char \<Rightarrow> bool" where
  "is_space c = (c \<in> set [CHR 0x20, CHR 0x09, CHR 0x0A, CHR 0x0B, CHR 0x0C, CHR 0x0D])"

definition py_strip :: "string \<Rightarrow> string" where
  "py_strip s = rev (dropWhile is_space (rev (dropWhile is_space s)))"

definition is_digit :: "char \<Rightarrow> bool" where
  "is_digit c = (48 \<le> (of_char c :: nat) \<and> (of_char c :: nat) \<le> 57)"

definition digit_val :: "char \<Rightarrow> nat" where
  "digit_val c = (of_char c :: nat) - 48"

text \<open>
  A digit part \<^verbatim>\<open>digit (["_"] digit)*\<close>: its value and its number of digits. The flag
  says whether the previous character was a digit.
\<close>

fun digitpart :: "bool \<Rightarrow> nat \<Rightarrow> nat \<Rightarrow> string \<Rightarrow> (nat \<times> nat) option" where
  "digitpart prev acc k [] = (if prev then Some (acc, k) else None)"
| "digitpart prev acc k (c # cs) =
     (if is_digit c then digitpart True (acc * 10 + digit_val c) (Suc k) cs
      else if c = CHR ''_'' \<and> prev then digitpart False acc k cs
      else None)"

text \<open>An optional sign: the factor and the rest of the text.\<close>

fun py_sign :: "string \<Rightarrow> int \<times> string" where
  "py_sign [] = (1, [])"
| "py_sign (c # cs) =
     (if c = CHR ''-'' then (- 1, cs) else if c = CHR ''+'' then (1, cs) else (1, c # cs))"

definition int_of_str :: "string \<Rightarrow> pyexc + int" where
  "int_of_str s =
     (case py_sign (py_strip s) of (sg, t) \<Rightarrow>
        (case digitpart False 0 0 t of
           None \<Rightarrow> Inl ValueError
         | Some (n, k) \<Rightarrow> Inr (sg * int n)))"

definition lower_char :: "char \<Rightarrow> char" where
  "lower_char c =
     (if 65 \<le> (of_char c :: nat) \<and> (of_char c :: nat) \<le> 90
      then char_of ((of_char c :: nat) + 32) else c)"

text \<open>
  The mantissa of a decimal float literal, \<^verbatim>\<open>D\<close>, \<^verbatim>\<open>D.\<close>, \<^verbatim>\<open>D.D\<close> or \<^verbatim>\<open>.D\<close>, as a
  rational.
\<close>

definition mantissa :: "string \<Rightarrow> rat option" where
  "mantissa s =
     (let ip = takeWhile (\<lambda>c. c \<noteq> CHR ''.'') s;
          rest = dropWhile (\<lambda>c. c \<noteq> CHR ''.'') s
      in case rest of
           [] \<Rightarrow> (case digitpart False 0 0 ip of
                    None \<Rightarrow> None
                  | Some (n, k) \<Rightarrow> Some (of_nat n))
         | d # fp \<Rightarrow>
             (if ip = [] then
                (case digitpart False 0 0 fp of
                   None \<Rightarrow> None
                 | Some (m, k) \<Rightarrow> Some (of_nat m / 10 ^ k))
              else
                (case digitpart False 0 0 ip of
                   None \<Rightarrow> None
                 | Some (n, j) \<Rightarrow>
                     (if fp = [] then Some (of_nat n)
                      else (case digitpart False 0 0 fp of
                              None \<Rightarrow> None
                            | Some (m, k) \<Rightarrow> Some (of_nat n + of_nat m / 10 ^ k))))))"

definition is_exp_char :: "char \<Rightarrow> bool" where
  "is_exp_char c = (c = CHR ''e'' \<or> c = CHR ''E'')"

definition decimal_float :: "string \<Rightarrow> rat option" where
  "decimal_float s =
     (let mp = takeWhile (\<lambda>c. \<not> is_exp_char c) s;
          rest = dropWhile (\<lambda>c. \<not> is_exp_char c) s
      in case mantissa mp of
           None \<Rightarrow> None
         | Some q \<Rightarrow>
             (case rest of
                [] \<Rightarrow> Some q
              | e # ep \<Rightarrow>
                  (case py_sign ep of (sg, t) \<Rightarrow>
                     (case digitpart False 0 0 t of
                        None \<Rightarrow> None
                      | Some (x, k) \<Rightarrow>
                          Some (if sg < 0 then q / 10 ^ x else q * 10 ^ x)))))"

definition float_of_str :: "string \<Rightarrow> pyexc + pyfloat" where
  "float_of_str s =
     (case py_sign (py_strip s) of (sg, t) \<Rightarrow>
        (let w = map lower_char t in
         if w = ''nan'' then Inr FNaN
         else if w = ''inf'' \<or> w = ''infinity'' then Inr (FInf (0 < sg))
         else (case decimal_float t of
                 None \<Rightarrow> Inl ValueError
               | Some q \<Rightarrow> Inr (FNum (of_int sg * q)))))"

text \<open>\<^verbatim>\<open>int(x)\<close> truncates a float towards zero.\<close>

fun py_int :: "pyval \<Rightarrow> pyexc + pyval" where
  "py_int (PBool b) = Inr (PInt (if b then 1 else 0))"
| "py_int (PInt n) = Inr (PInt n)"
| "py_int (PFloat FNaN) = Inl ValueError"
| "py_int (PFloat (FInf b)) = Inl OverflowError"
| "py_int (PFloat (FNum q)) = Inr (PInt (if 0 \<le> q then \<lfloor>q\<rfloor> else \<lceil>q\<rceil>))"
| "py_int (PStr s) = (case int_of_str s of Inl e \<Rightarrow> Inl e | Inr n \<Rightarrow> Inr (PInt n))"
| "py_int v = Inl TypeError"

fun py_float :: "pyval \<Rightarrow> pyexc + pyval" where
  "py_float (PBool b) = Inr (PFloat (FNum (if b then 1 else 0)))"
| "py_float (PInt n) = Inr (PFloat (FNum (of_int n)))"
| "py_float (PFloat f) = Inr (PFloat f)"
| "py_float (PStr s) = (case float_of_str s of Inl e \<Rightarrow> Inl e | Inr f \<Rightarrow> Inr (PFloat f))"
| "py_float v = Inl TypeError"

section \<open>Fields (\<^verbatim>\<open>fields.py\<close>)\<close>

text \<open>
  The class of a field decides its SQLite column type and its default value parser.
  \<^verbatim>\<open>DateTime\<close> overrides the type only.
\<close>

datatype field_class = Field_cls | String_cls | Int_cls | Float_cls | DateTime_cls

type_synonym pycallable = "pyval \<Rightarrow> pyexc + pyval"

record pyfield =
  cls :: field_class
  name :: string
  default_value :: pyval
  raw_name :: string
  value_converter :: "pycallable option"
  value_validator :: "pycallable option"
  value_parser :: "pycallable option"
  splited_key_names :: "string list"

text \<open>
  \<^verbatim>\<open>Field.__init__\<close>. When no value parser is given the field uses the default value
  parser of its class; \<open>value_parser\<close> stays \<open>None\<close> then and \<open>parse\<close> dispatches.
\<close>

definition Field_init ::
  "field_class \<Rightarrow> string \<Rightarrow> string option \<Rightarrow> pyval \<Rightarrow> pycallable option \<Rightarrow>
   pycallable option \<Rightarrow> pycallable option \<Rightarrow> pyfield" where
  "Field_init k nm raw dflt parser validator converter =
     (let rn = (case raw of None \<Rightarrow> nm | Some r \<Rightarrow> r) in
      \<lparr>cls = k, name = nm, default_value = dflt, raw_name = rn,
       value_converter = converter, value_validator = validator,
       value_parser = parser, splited_key_names = py_split CHR ''.'' rn\<rparr>)"

definition sql_type :: "pyfield \<Rightarrow> string" where
  "sql_type f =
     (case cls f of
        Field_cls \<Rightarrow> ''BLOB''
      | String_cls \<Rightarrow> ''TEXT''
      | Int_cls \<Rightarrow> ''INTEGER''
      | Float_cls \<Rightarrow> ''REAL''
      | DateTime_cls \<Rightarrow> ''INTEGER'')"

text \<open>
  The loop of \<^verbatim>\<open>Field.default_value_parser\<close> over the path segments: \<open>None\<close> is the
  early \<^verbatim>\<open>return None\<close>, taken when the current value is not a dictionary or lacks the
  key.
\<close>

fun walk :: "string list \<Rightarrow> pyval \<Rightarrow> pyval option" where
  "walk [] r = Some r"
| "walk (key # keys) (PDict kvs) =
     (case map_of kvs key of None \<Rightarrow> None | Some v \<Rightarrow> walk keys v)"
| "walk (key # keys) r = None"

definition Field_default_value_parser :: "pyfield \<Rightarrow> pyval \<Rightarrow> pyexc + pyval" where
  "Field_default_value_parser f record =
     (case walk (splited_key_names f) record of
        None \<Rightarrow> Inr PNone
      | Some r \<Rightarrow>
          (case (case value_validator f of
                   None \<Rightarrow> Inr True
                 | Some validator \<Rightarrow>
                     (case validator r of
                        Inl e \<Rightarrow> Inl e
                      | Inr b \<Rightarrow> Inr (b \<noteq> PBool False))) of
             Inl e \<Rightarrow> Inl e
           | Inr ok \<Rightarrow>
               (if \<not> ok then Inl ValueError
                else (case value_converter f of
                        None \<Rightarrow> Inr r
                      | Some converter \<Rightarrow> converter r))))"

definition String_default_value_parser :: "pyenv \<Rightarrow> pyfield \<Rightarrow> pyval \<Rightarrow> pyexc + pyval" where
  "String_default_value_parser env f record =
     (case Field_default_value_parser f record of
        Inl e \<Rightarrow> Inl e
      | Inr v \<Rightarrow> (if v \<noteq> PNone then Inr (PStr (py_str env v)) else Inr PNone))"

definition Int_default_value_parser :: "pyfield \<Rightarrow> pyval \<Rightarrow> pyexc + pyval" where
  "Int_default_value_parser f record =
     (case Field_default_value_parser f record of
        Inl e \<Rightarrow> Inl e
      | Inr v \<Rightarrow> (if v \<noteq> PNone then py_int v else Inr PNone))"

definition Float_default_value_parser :: "pyfield \<Rightarrow> pyval \<Rightarrow> pyexc + pyval" where
  "Float_default_value_parser f record =
     (case Field_default_value_parser f record of
        Inl e \<Rightarrow> Inl e
      | Inr v \<Rightarrow> (if v \<noteq> PNone then py_float v else Inr (PFloat FNaN)))"

definition default_value_parser :: "pyenv \<Rightarrow> pyfield \<Rightarrow> pyval \<Rightarrow> pyexc + pyval" where
  "default_value_parser env f record =
     (case cls f of
        Field_cls \<Rightarrow> Field_default_value_parser f record
      | String_cls \<Rightarrow> String_default_value_parser env f record
      | Int_cls \<Rightarrow> Int_default_value_parser f record
      | Float_cls \<Rightarrow> Float_default_value_parser f record
      | DateTime_cls \<Rightarrow> Field_default_value_parser f record)"

definition parse :: "pyenv \<Rightarrow> pyfield \<Rightarrow> pyval \<Rightarrow> pyexc + pyval" where
  "parse env f record =
     (case value_parser f of
        Some p \<Rightarrow> p record
      | None \<Rightarrow> default_value_parser env f record)"

section \<open>The storage\<close>

text \<open>
  The SQLite connection is reduced to what the collector observes of it: the rows of the
  collection's table in insertion order, each row being the field values followed by
  \<^verbatim>\<open>__id\<close> (the column order of the \<^verbatim>\<open>CREATE TABLE\<close> statement, which \<^verbatim>\<open>SELECT *\<close> returns);
  the rows as of the last commit; and the number of rows at each commit so far. The
  schema statements (tables and indexes) are taken to be accepted by SQLite, and column
  affinity is not represented: a value is read back as it was bound.
\<close>

record sqlite_conn =
  rows :: "pyval list list"
  durable :: "pyval list list"
  commit_log :: "nat list"

text \<open>
  Binding a parameter: \<^verbatim>\<open>sqlite3\<close> accepts \<^verbatim>\<open>None\<close>, integers that fit 64 bits (a boolean
  is an integer), floats (SQLite stores NaN as NULL) and strings; it rejects every other
  type.
\<close>

fun sqlite_bind :: "pyval \<Rightarrow> pyexc + pyval" where
  "sqlite_bind PNone = Inr PNone"
| "sqlite_bind (PBool b) = Inr (PInt (if b then 1 else 0))"
| "sqlite_bind (PInt n) =
     (if - (2 ^ 63) \<le> n \<and> n < 2 ^ 63 then Inr (PInt n) else Inl OverflowError)"
| "sqlite_bind (PFloat FNaN) = Inr PNone"
| "sqlite_bind (PFloat f) = Inr (PFloat f)"
| "sqlite_bind (PStr s) = Inr (PStr s)"
| "sqlite_bind v = Inl SqliteError"

text \<open>A comprehension whose element expression may raise: the first exception wins.\<close>

fun comprehension :: "('a \<Rightarrow> pyexc + 'b) \<Rightarrow> 'a list \<Rightarrow> pyexc + 'b list" where
  "comprehension g [] = Inr []"
| "comprehension g (x # xs) =
     (case g x of
        Inl e \<Rightarrow> Inl e
      | Inr y \<Rightarrow> (case comprehension g xs of Inl e \<Rightarrow> Inl e | Inr ys \<Rightarrow> Inr (y # ys)))"

definition sqlite_insert :: "sqlite_conn \<Rightarrow> int \<Rightarrow> pyval list \<Rightarrow> pyexc + sqlite_conn" where
  "sqlite_insert conn r_id vals =
     (case comprehension sqlite_bind vals of
        Inl e \<Rightarrow> Inl e
      | Inr bound \<Rightarrow> Inr (conn\<lparr>rows := rows conn @ [bound @ [PInt r_id]]\<rparr>))"

definition sqlite_commit :: "sqlite_conn \<Rightarrow> sqlite_conn" where
  "sqlite_commit conn =
     conn\<lparr>durable := rows conn, commit_log := commit_log conn @ [length (rows conn)]\<rparr>"

section \<open>The collector (\<^verbatim>\<open>collector.py\<close>)\<close>

text \<open>
  The attributes of a \<^verbatim>\<open>JsonDataCollector\<close>. The error handler returns \<open>None\<close> when it
  returns normally and \<open>Some e\<close> when it raises \<open>e\<close> itself; \<open>handler_calls\<close> is not an
  attribute of the class but the trace of the calls made to the handler, kept to state
  what reaches it.
\<close>

type_synonym pyhandler = "pyexc \<Rightarrow> pyval \<Rightarrow> pyexc option"

record collector =
  sqlite :: sqlite_conn
  in_memory :: bool
  fields_c :: "pyfield list"
  unique_keys :: "int list"
  sorted_keys :: "int list list"
  collection_name :: string
  skip_duplicate :: bool
  append_on_exist :: bool
  hash_keys :: "string \<rightharpoonup> pyval list list"
  inc_id :: int
  batch_size :: int
  error_handler :: "pyhandler option"
  handler_calls :: "(pyexc \<times> pyval) list"

text \<open>
  \<^verbatim>\<open>__hash_unique_key\<close> receives either a parsed record (a dictionary from field names to
  values) or a row read from SQLite (a tuple).
\<close>

datatype hrecord = RDict "string \<rightharpoonup> pyval" | RTuple "pyval list"

text \<open>
  The value of one unique key: \<^verbatim>\<open>record[self.fields[uniq_key_id].name]\<close> for a dictionary,
  \<^verbatim>\<open>record[uniq_key_id]\<close> for a tuple.
\<close>

definition key_value :: "pyfield list \<Rightarrow> hrecord \<Rightarrow> int \<Rightarrow> pyexc + pyval" where
  "key_value fs record uniq_key_id =
     (case record of
        RDict r \<Rightarrow>
          (case py_index fs uniq_key_id of
             Inl e \<Rightarrow> Inl e
           | Inr f \<Rightarrow> (case r (name f) of None \<Rightarrow> Inl KeyError | Some v \<Rightarrow> Inr v))
      | RTuple t \<Rightarrow> py_index t uniq_key_id)"

text \<open>
  \<^verbatim>\<open>__hash_unique_key\<close>: the MD5 object is updated with \<^verbatim>\<open>str\<close> of each key value in turn,
  so the digest is that of the concatenation.
\<close>

definition hash_unique_key :: "pyenv \<Rightarrow> collector \<Rightarrow> hrecord \<Rightarrow> pyexc + string" where
  "hash_unique_key env c record =
     (if length (unique_keys c) = 0 then Inl RuntimeError
      else (case comprehension (key_value (fields_c c) record) (unique_keys c) of
              Inl e \<Rightarrow> Inl e
            | Inr vs \<Rightarrow> Inr (md5_hexdigest env (concat (map (py_str env) vs)))))"

text \<open>\<^verbatim>\<open>__tuple_eq\<close>: \<^verbatim>\<open>y[i]\<close> raises when \<^verbatim>\<open>y\<close> is shorter than \<^verbatim>\<open>x\<close>.\<close>

fun tuple_eq :: "pyval list \<Rightarrow> pyval list \<Rightarrow> pyexc + bool" where
  "tuple_eq [] y = Inr True"
| "tuple_eq (a # x) [] = Inl IndexError"
| "tuple_eq (a # x) (b # y) = (if py_ne a b then Inr False else tuple_eq x y)"

text \<open>The loop of \<^verbatim>\<open>__has_duplicate\<close> over the bucket.\<close>

fun bucket_scan :: "pyval list list \<Rightarrow> pyval list \<Rightarrow> pyexc + bool" where
  "bucket_scan [] r_uniq_keys = Inr False"
| "bucket_scan (r_compared # bucket) r_uniq_keys =
     (case tuple_eq r_compared r_uniq_keys of
        Inl e \<Rightarrow> Inl e
      | Inr eq \<Rightarrow> (if eq then Inr True else bucket_scan bucket r_uniq_keys))"

definition has_duplicate :: "collector \<Rightarrow> (string \<rightharpoonup> pyval) \<Rightarrow> string \<Rightarrow> pyexc + bool" where
  "has_duplicate c r r_hash =
     (case hash_keys c r_hash of
        None \<Rightarrow> Inr False
      | Some bucket \<Rightarrow>
          (case comprehension (key_value (fields_c c) (RDict r)) (unique_keys c) of
             Inl e \<Rightarrow> Inl e
           | Inr r_uniq_keys \<Rightarrow> bucket_scan bucket r_uniq_keys))"

text \<open>Appending a key tuple to its bucket, creating the bucket when it is absent.\<close>

definition bucket_add ::
  "(string \<rightharpoonup> pyval list list) \<Rightarrow> string \<Rightarrow> pyval list \<Rightarrow> (string \<rightharpoonup> pyval list list)" where
  "bucket_add hk h ks =
     (case hk h of None \<Rightarrow> hk(h \<mapsto> [ks]) | Some bucket \<Rightarrow> hk(h \<mapsto> bucket @ [ks]))"

text \<open>
  A statement of a method that mutates the collector returns the exception it raises, if
  any, together with the collector as it is at that point.

  \<open>store\<close> is the body of the conditional of \<^verbatim>\<open>__insert\<close>: the SQL insert, the update of the
  hash table and the increment of the identifier.
\<close>

definition store :: "collector \<Rightarrow> (string \<rightharpoonup> pyval) \<Rightarrow> string \<Rightarrow> pyexc option \<times> collector" where
  "store c r r_hash =
     (let r_id = inc_id c in
      case comprehension (\<lambda>x. case r (name x) of None \<Rightarrow> Inl KeyError | Some v \<Rightarrow> Inr v)
             (fields_c c) of
        Inl e \<Rightarrow> (Some e, c)
      | Inr vals \<Rightarrow>
          (case sqlite_insert (sqlite c) r_id vals of
             Inl e \<Rightarrow> (Some e, c)
           | Inr conn \<Rightarrow>
               (let c1 = c\<lparr>sqlite := conn\<rparr> in
                case comprehension (key_value (fields_c c1) (RDict r)) (unique_keys c1) of
                  Inl e \<Rightarrow> (Some e, c1)
                | Inr r_uniq_keys \<Rightarrow>
                    (None, c1\<lparr>hash_keys := bucket_add (hash_keys c1) r_hash r_uniq_keys,
                               inc_id := inc_id c1 + 1\<rparr>))))"

text \<open>The last statement of \<^verbatim>\<open>__insert\<close>: \<^verbatim>\<open>%\<close> raises when the batch size is zero.\<close>

definition commit_on_batch :: "collector \<Rightarrow> pyexc option \<times> collector" where
  "commit_on_batch c =
     (if batch_size c = 0 then (Some ZeroDivisionError, c)
      else if inc_id c mod batch_size c = 0
           then (None, c\<lparr>sqlite := sqlite_commit (sqlite c)\<rparr>)
           else (None, c))"

definition insert_record :: "pyenv \<Rightarrow> collector \<Rightarrow> (string \<rightharpoonup> pyval) \<Rightarrow> pyexc option \<times> collector" where
  "insert_record env c r =
     (case hash_unique_key env c (RDict r) of
        Inl e \<Rightarrow> (Some e, c)
      | Inr r_hash \<Rightarrow>
          (case (if \<not> skip_duplicate c then Inr False else has_duplicate c r r_hash) of
             Inl e \<Rightarrow> (Some e, c)
           | Inr dup \<Rightarrow>
               (case (if dup then (None, c) else store c r r_hash) of
                  (Some e, c1) \<Rightarrow> (Some e, c1)
                | (None, c1) \<Rightarrow> commit_on_batch c1)))"

text \<open>
  The dictionary comprehension \<^verbatim>\<open>{f.name: f.parse(record) for f in self.fields}\<close>: a later
  field of the same name overwrites an earlier one.
\<close>

fun parse_fields ::
  "pyenv \<Rightarrow> pyfield list \<Rightarrow> pyval \<Rightarrow> (string \<rightharpoonup> pyval) \<Rightarrow> pyexc + (string \<rightharpoonup> pyval)" where
  "parse_fields env [] record m = Inr m"
| "parse_fields env (f # fs) record m =
     (case parse env f record of
        Inl e \<Rightarrow> Inl e
      | Inr v \<Rightarrow> parse_fields env fs record (m(name f \<mapsto> v)))"

text \<open>The \<^verbatim>\<open>except Exception\<close> clause of \<^verbatim>\<open>add\<close>.\<close>

definition handle_exception :: "collector \<Rightarrow> pyexc \<Rightarrow> pyval \<Rightarrow> pyexc option \<times> collector" where
  "handle_exception c e record =
     (case error_handler c of
        None \<Rightarrow> (None, c)
      | Some h \<Rightarrow> (h e record, c\<lparr>handler_calls := handler_calls c @ [(e, record)]\<rparr>))"

text \<open>The body of the loop of \<^verbatim>\<open>add\<close>.\<close>

definition add_record :: "pyenv \<Rightarrow> collector \<Rightarrow> pyval \<Rightarrow> pyexc option \<times> collector" where
  "add_record env c record =
     (case parse_fields env (fields_c c) record Map.empty of
        Inl e \<Rightarrow> handle_exception c e record
      | Inr r_parsed \<Rightarrow>
          (case insert_record env c r_parsed of
             (Some e, c1) \<Rightarrow> handle_exception c1 e record
           | (None, c1) \<Rightarrow> (None, c1)))"

fun add_loop :: "pyenv \<Rightarrow> collector \<Rightarrow> pyval list \<Rightarrow> pyexc option \<times> collector" where
  "add_loop env c [] = (None, c)"
| "add_loop env c (record # r_list) =
     (case add_record env c record of
        (Some e, c1) \<Rightarrow> (Some e, c1)
      | (None, c1) \<Rightarrow> add_loop env c1 r_list)"

text \<open>
  \<^verbatim>\<open>list(r)\<close> for an argument that is not a list: a dictionary yields its keys, a string
  its characters, and the other values are not iterable.
\<close>

fun py_list :: "pyval \<Rightarrow> pyexc + pyval list" where
  "py_list (PList xs) = Inr xs"
| "py_list (PDict kvs) = Inr (map (\<lambda>kv. PStr (fst kv)) kvs)"
| "py_list (PStr s) = Inr (map (\<lambda>ch. PStr [ch]) s)"
| "py_list v = Inl TypeError"

definition add :: "pyenv \<Rightarrow> collector \<Rightarrow> pyval \<Rightarrow> pyexc option \<times> collector" where
  "add env c r =
     (case (case r of PList xs \<Rightarrow> Inr xs | _ \<Rightarrow> py_list r) of
        Inl e \<Rightarrow> (Some e, c)
      | Inr r_list \<Rightarrow> add_loop env c r_list)"

text \<open>The loop of \<^verbatim>\<open>__init_sqlite\<close> over the existing rows, in append mode.\<close>

fun rehydrate :: "pyenv \<Rightarrow> collector \<Rightarrow> pyval list list \<Rightarrow> pyexc + collector" where
  "rehydrate env c [] = Inr c"
| "rehydrate env c (rec # recs) =
     (case hash_unique_key env c (RTuple rec) of
        Inl e \<Rightarrow> Inl e
      | Inr rec_hash \<Rightarrow>
          (case comprehension (py_index rec) (unique_keys c) of
             Inl e \<Rightarrow> Inl e
           | Inr rec_keys \<Rightarrow>
               rehydrate env (c\<lparr>hash_keys := bucket_add (hash_keys c) rec_hash rec_keys\<rparr>) recs))"

text \<open>
  \<^verbatim>\<open>__init_sqlite\<close>. \<open>existing\<close> is the collection's table in the database file before the
  collector is created, if there is one; an in-memory database starts without it. The
  names of the indexed columns are looked up in \<^verbatim>\<open>self.fields\<close>, which raises on an index
  out of range.
\<close>

definition init_sqlite :: "pyenv \<Rightarrow> collector \<Rightarrow> pyval list list option \<Rightarrow> pyexc + collector" where
  "init_sqlite env c existing =
     (let found = (if in_memory c then None else existing);
          kept = (if \<not> append_on_exist c then None else found);
          tbl = (case kept of None \<Rightarrow> [] | Some t \<Rightarrow> t);
          conn = \<lparr>rows = tbl, durable = tbl, commit_log = []\<rparr>
      in case (if length (unique_keys c) > 0
               then comprehension (py_index (fields_c c)) (unique_keys c) else Inr []) of
           Inl e \<Rightarrow> Inl e
         | Inr unique_key_columns \<Rightarrow>
             (let conn1 = sqlite_commit conn in
              case (if length (sorted_keys c) > 0
                    then comprehension (comprehension (py_index (fields_c c))) (sorted_keys c)
                    else Inr []) of
                Inl e \<Rightarrow> Inl e
              | Inr sorted_key_columns \<Rightarrow>
                  (let conn2 = sqlite_commit conn1;
                       c1 = c\<lparr>sqlite := conn2, hash_keys := Map.empty\<rparr>
                   in case (if append_on_exist c1 then rehydrate env c1 (rows conn2)
                            else Inr c1) of
                        Inl e \<Rightarrow> Inl e
                      | Inr c2 \<Rightarrow>
                          Inr (c2\<lparr>inc_id :=
                                 (if append_on_exist c2
                                  then int (length (rows (sqlite c2))) + 1 else 1)\<rparr>))))"

text \<open>
  \<^verbatim>\<open>JsonDataCollector.__init__\<close>: the attributes are set from the arguments (\<^verbatim>\<open>None\<close> for
  the key lists means none), then \<^verbatim>\<open>__init_sqlite\<close> runs.
\<close>

definition JsonDataCollector_init ::
  "pyenv \<Rightarrow> pyval list list option \<Rightarrow> string \<Rightarrow> pyfield list \<Rightarrow> bool \<Rightarrow> int list option \<Rightarrow>
   int list list option \<Rightarrow> pyhandler option \<Rightarrow> bool \<Rightarrow> bool \<Rightarrow> int \<Rightarrow> pyexc + collector" where
  "JsonDataCollector_init env existing collection_name0 fields0 in_memory0 unique_keys0
     sorted_keys0 error_handler0 ignore_duplicates append0 batch_size0 =
     init_sqlite env
       \<lparr>sqlite = \<lparr>rows = [], durable = [], commit_log = []\<rparr>,
        in_memory = in_memory0,
        fields_c = fields0,
        unique_keys = (case unique_keys0 of None \<Rightarrow> [] | Some ks \<Rightarrow> ks),
        sorted_keys = (case sorted_keys0 of None \<Rightarrow> [] | Some ks \<Rightarrow> ks),
        collection_name = collection_name0,
        skip_duplicate = ignore_duplicates,
        append_on_exist = append0,
        hash_keys = Map.empty,
        inc_id = 1,
        batch_size = batch_size0,
        error_handler = error_handler0,
        handler_calls = []\<rparr>
       existing"

text \<open>\<^verbatim>\<open>__del__\<close>: the pending rows are committed and the connection is closed.\<close>

definition collector_del :: "collector \<Rightarrow> sqlite_conn" where
  "collector_del c = sqlite_commit (sqlite c)"

section \<open>Sequences of calls, invariants and sample data\<close>

text \<open>
  A caller may call \<^verbatim>\<open>add\<close> any number of times, and go on after a call that raised:
  \<open>adds\<close> threads the collector through a list of arguments.
\<close>

fun adds :: "pyenv \<Rightarrow> collector \<Rightarrow> pyval list \<Rightarrow> collector" where
  "adds env c [] = c"
| "adds env c (r # rs) = adds env (snd (add env c r)) rs"

text \<open>
  The identifiers of the stored rows are \<open>1, 2, ..., n\<close> in insertion order, and the
  counter is one past the number of rows.
\<close>

definition ids_consecutive :: "collector \<Rightarrow> bool" where
  "ids_consecutive c =
     (map last (rows (sqlite c)) = map (\<lambda>k. PInt (int k)) [1..<Suc (length (rows (sqlite c)))]
      \<and> inc_id c = int (length (rows (sqlite c))) + 1)"

text \<open>The attributes that no method changes after construction.\<close>

definition same_config :: "collector \<Rightarrow> collector \<Rightarrow> bool" where
  "same_config c c1 =
     (fields_c c1 = fields_c c \<and> unique_keys c1 = unique_keys c
      \<and> skip_duplicate c1 = skip_duplicate c \<and> batch_size c1 = batch_size c
      \<and> error_handler c1 = error_handler c \<and> append_on_exist c1 = append_on_exist c
      \<and> in_memory c1 = in_memory c \<and> sorted_keys c1 = sorted_keys c)"

text \<open>
  The two outcomes of processing one record: the table, the counter and the hash table
  are as before, or the record \<open>r\<close> was stored: one row with the current identifier was
  appended, its key tuple was put in its bucket, and the counter moved on.
\<close>

definition untouched :: "collector \<Rightarrow> collector \<Rightarrow> bool" where
  "untouched c c1 =
     (rows (sqlite c1) = rows (sqlite c) \<and> inc_id c1 = inc_id c \<and> hash_keys c1 = hash_keys c)"

definition stored :: "pyenv \<Rightarrow> collector \<Rightarrow> (string \<rightharpoonup> pyval) \<Rightarrow> collector \<Rightarrow> bool" where
  "stored env c r c1 =
     (\<exists>ks vals bound.
        unique_keys c \<noteq> []
        \<and> comprehension (key_value (fields_c c) (RDict r)) (unique_keys c) = Inr ks
        \<and> comprehension (\<lambda>x. case r (name x) of None \<Rightarrow> Inl KeyError | Some v \<Rightarrow> Inr v)
              (fields_c c) = Inr vals
        \<and> comprehension sqlite_bind vals = Inr bound
        \<and> rows (sqlite c1) = rows (sqlite c) @ [bound @ [PInt (inc_id c)]]
        \<and> inc_id c1 = inc_id c + 1
        \<and> hash_keys c1 =
            bucket_add (hash_keys c) (md5_hexdigest env (concat (map (py_str env) ks))) ks)"

subsection \<open>An environment and collectors for the examples\<close>

function show_nat :: "nat \<Rightarrow> string" where
  "show_nat n =
     (if n < 10 then [char_of (48 + n)]
      else show_nat (n div 10) @ [char_of (48 + n mod 10)])"
  by pat_completeness auto
termination
  by (relation "measure id") auto

declare show_nat.simps [simp del]

definition show_int :: "int \<Rightarrow> string" where
  "show_int i = (if i < 0 then CHR ''-'' # show_nat (nat (- i)) else show_nat (nat i))"

text \<open>
  \<^verbatim>\<open>str\<close> as Python computes it on \<^verbatim>\<open>None\<close>, booleans, integers, strings, NaN, the
  infinities and the floats with an integer value below \<open>10\<^sup>1\<^sup>6\<close>. The examples need no
  other float and no container as a key; those are rendered as the empty text here.
\<close>

definition sample_str :: "pyval \<Rightarrow> string" where
  "sample_str v =
     (case v of
        PNone \<Rightarrow> ''None''
      | PBool b \<Rightarrow> (if b then ''True'' else ''False'')
      | PInt i \<Rightarrow> show_int i
      | PStr s \<Rightarrow> s
      | PFloat FNaN \<Rightarrow> ''nan''
      | PFloat (FInf b) \<Rightarrow> (if b then ''inf'' else ''-inf'')
      | PFloat (FNum q) \<Rightarrow>
          (if of_int \<lfloor>q\<rfloor> = q \<and> \<bar>q\<bar> < 10 ^ 16 then show_int \<lfloor>q\<rfloor> @ ''.0'' else [])
      | _ \<Rightarrow> [])"

text \<open>The sample environment takes the hashed text itself as its digest.\<close>

definition sample_env :: pyenv where
  "sample_env = \<lparr>py_str = sample_str, md5_hexdigest = (\<lambda>s. s)\<rparr>"

text \<open>
  The collector that \<^verbatim>\<open>JsonDataCollector("t", fs, unique_keys=uk, ignore_duplicates=skip,
  batch_size=bs, error_handler=h)\<close> constructs: in memory, truncating, no sorted keys.
\<close>

definition fresh_collector ::
  "pyfield list \<Rightarrow> int list \<Rightarrow> bool \<Rightarrow> int \<Rightarrow> pyhandler option \<Rightarrow> collector" where
  "fresh_collector fs uk skip bs h =
     \<lparr>sqlite = \<lparr>rows = [], durable = [], commit_log = [0, 0]\<rparr>,
      in_memory = True, fields_c = fs, unique_keys = uk, sorted_keys = [],
      collection_name = ''t'', skip_duplicate = skip, append_on_exist = False,
      hash_keys = Map.empty, inc_id = 1, batch_size = bs, error_handler = h,
      handler_calls = []\<rparr>"

definition field_a :: pyfield where
  "field_a = Field_init Field_cls ''a'' None PNone None None None"

definition quiet_handler :: pyhandler where
  "quiet_handler e rcd = None"

definition field_x :: pyfield where
  "field_x = Field_init Float_cls ''x'' None PNone None None None"

definition field_b :: pyfield where
  "field_b = Field_init Field_cls ''b'' None PNone None None None"

definition nested_record :: pyval where
  "nested_record = PDict [(''a'', PStr ''k1''), (''b'', PDict [(''x'', PInt 1)])]"

text \<open>
  The collector that the constructor builds on a database file: \<open>tbl\<close> is the table it
  finds (empty in truncate mode) and \<open>hk\<close> the hash table it fills from it.
\<close>

definition opened_collector ::
  "pyfield list \<Rightarrow> int list \<Rightarrow> bool \<Rightarrow> bool \<Rightarrow> int \<Rightarrow> pyval list list \<Rightarrow>
   (string \<rightharpoonup> pyval list list) \<Rightarrow> collector" where
  "opened_collector fs uk skip app bs tbl hk =
     \<lparr>sqlite = \<lparr>rows = tbl, durable = tbl, commit_log = [length tbl, length tbl]\<rparr>,
      in_memory = False, fields_c = fs, unique_keys = uk, sorted_keys = [],
      collection_name = ''t'', skip_duplicate = skip, append_on_exist = app,
      hash_keys = hk, inc_id = int (length tbl) + 1, batch_size = bs, error_handler = None,
      handler_calls = []\<rparr>"

text \<open>The tables and hash tables of two reopened collections.\<close>

definition abc_rows :: "pyval list list" where
  "abc_rows = [[PStr ''A'', PInt 1], [PStr ''B'', PInt 2], [PStr ''C'', PInt 3]]"

definition abc_index :: "string \<rightharpoonup> pyval list list" where
  "abc_index = [''A'' \<mapsto> [[PStr ''A'']], ''B'' \<mapsto> [[PStr ''B'']], ''C'' \<mapsto> [[PStr ''C'']]]"

definition nan_rows :: "pyval list list" where
  "nan_rows = [[PNone, PInt 1], [PFloat (FNum 1), PInt 2], [PFloat (FNum 2), PInt 3]]"

definition nan_index :: "string \<rightharpoonup> pyval list list" where
  "nan_index = [''None'' \<mapsto> [[PNone]], ''1.0'' \<mapsto> [[PFloat (FNum 1)]],
                ''2.0'' \<mapsto> [[PFloat (FNum 2)]]]"

definition seven_records :: pyval where
  "seven_records =
     PList (map (\<lambda>s. PDict [(''a'', PStr s)])
              [''r1'', ''r2'', ''r3'', ''r4'', ''r5'', ''r6'', ''r7''])"

section \<open>Lemmas\<close>

subsection \<open>Construction\<close>

lemma init_fresh:
  "comprehension (py_index fs) uk = Inr cols \<Longrightarrow>
   JsonDataCollector_init env None ''t'' fs True (Some uk) None h skip False bs
     = Inr (fresh_collector fs uk skip bs h)"
  by (simp add: JsonDataCollector_init_def init_sqlite_def fresh_collector_def
      sqlite_commit_def Let_def)

lemma init_default:
  "JsonDataCollector_init env None ''t'' fs True None None h False False 4096
     = Inr (fresh_collector fs [] False 4096 h)"
  by (simp add: JsonDataCollector_init_def init_sqlite_def fresh_collector_def
      sqlite_commit_def Let_def)

subsection \<open>What one record does to the collector\<close>

lemma same_config_refl: "same_config c c"
  by (simp add: same_config_def)

lemma same_config_trans: "same_config a b \<Longrightarrow> same_config b c \<Longrightarrow> same_config a c"
  by (simp add: same_config_def)


lemma commit_on_batch_frame:
  "commit_on_batch c = (x, c1) \<Longrightarrow>
     same_config c c1 \<and> untouched c c1 \<and> handler_calls c1 = handler_calls c"
  by (auto simp: commit_on_batch_def same_config_def untouched_def sqlite_commit_def split: if_splits)

lemma store_cases:
  assumes "store c r (md5_hexdigest env (concat (map (py_str env) ks))) = (x, c1)"
    and "comprehension (key_value (fields_c c) (RDict r)) (unique_keys c) = Inr ks"
    and "unique_keys c \<noteq> []"
  shows "same_config c c1 \<and> handler_calls c1 = handler_calls c
         \<and> ((x \<noteq> None \<and> untouched c c1) \<or> (x = None \<and> stored env c r c1))"
  using assms
  by (auto simp: store_def Let_def sqlite_insert_def same_config_def untouched_def stored_def
      split: sum.splits)

lemma insert_record_cases:
  assumes "insert_record env c r = (x, c1)"
  shows "same_config c c1 \<and> handler_calls c1 = handler_calls c
         \<and> (untouched c c1 \<or> stored env c r c1)"
proof (cases "hash_unique_key env c (RDict r)")
  case (Inl e)
  then show ?thesis using assms
    by (simp add: insert_record_def same_config_refl untouched_def)
next
  case (Inr h)
  then obtain ks where ks: "comprehension (key_value (fields_c c) (RDict r)) (unique_keys c) = Inr ks"
    and h: "h = md5_hexdigest env (concat (map (py_str env) ks))" and ne: "unique_keys c \<noteq> []"
    by (auto simp: hash_unique_key_def split: if_splits sum.splits)
  show ?thesis
  proof (cases "if \<not> skip_duplicate c then Inr False else has_duplicate c r h")
    case (Inl e)
    then show ?thesis using assms Inr
      by (simp add: insert_record_def same_config_refl untouched_def)
  next
    case dup: (Inr dup)
    show ?thesis
    proof (cases dup)
      case True
      then have "commit_on_batch c = (x, c1)"
        using assms Inr dup by (simp add: insert_record_def)
      then show ?thesis
        using commit_on_batch_frame by blast
    next
      case False
      obtain y c2 where st: "store c r h = (y, c2)"
        by (cases "store c r h")
      from store_cases [OF st [unfolded h] ks ne]
      have fr: "same_config c c2" "handler_calls c2 = handler_calls c"
        and cs: "(y \<noteq> None \<and> untouched c c2) \<or> (y = None \<and> stored env c r c2)"
        by auto
      show ?thesis
      proof (cases y)
        case None
        then have cb: "commit_on_batch c2 = (x, c1)"
          using assms Inr dup False st by (simp add: insert_record_def)
        from commit_on_batch_frame [OF cb]
        have "same_config c2 c1" "untouched c2 c1" "handler_calls c1 = handler_calls c2"
          by auto
        moreover have "stored env c r c2" using cs None by simp
        ultimately show ?thesis using fr
          by (auto simp: same_config_def untouched_def stored_def)
      next
        case (Some e)
        then have "x = Some e" "c1 = c2"
          using assms Inr dup False st by (simp_all add: insert_record_def)
        then show ?thesis using fr cs Some by auto
      qed
    qed
  qed
qed


lemma handle_exception_frame:
  "handle_exception c e record = (x, c1) \<Longrightarrow> same_config c c1 \<and> untouched c c1"
  by (auto simp: handle_exception_def same_config_def untouched_def split: option.splits)

lemma add_record_cases:
  assumes "add_record env c record = (x, c1)"
  shows "same_config c c1 \<and>
         (untouched c c1 \<or>
          (\<exists>r. parse_fields env (fields_c c) record Map.empty = Inr r \<and> stored env c r c1))"
proof (cases "parse_fields env (fields_c c) record Map.empty")
  case (Inl e)
  then have "handle_exception c e record = (x, c1)"
    using assms by (simp add: add_record_def)
  then show ?thesis using handle_exception_frame by blast
next
  case (Inr r)
  obtain y c2 where ins: "insert_record env c r = (y, c2)"
    by (cases "insert_record env c r")
  from insert_record_cases [OF ins]
  have fr: "same_config c c2" and cs: "untouched c c2 \<or> stored env c r c2"
    by auto
  show ?thesis
  proof (cases y)
    case None
    then have "c1 = c2" using assms Inr ins by (simp add: add_record_def)
    then show ?thesis using fr cs Inr by auto
  next
    case (Some e)
    then have "handle_exception c2 e record = (x, c1)"
      using assms Inr ins by (simp add: add_record_def)
    from handle_exception_frame [OF this]
    have "same_config c2 c1" "untouched c2 c1" by auto
    then show ?thesis using fr cs Inr
      by (auto simp: same_config_def untouched_def stored_def)
  qed
qed

lemma ids_untouched: "ids_consecutive c \<Longrightarrow> untouched c c1 \<Longrightarrow> ids_consecutive c1"
  by (simp add: ids_consecutive_def untouched_def)

lemma ids_stored: "ids_consecutive c \<Longrightarrow> stored env c r c1 \<Longrightarrow> ids_consecutive c1"
  by (auto simp: ids_consecutive_def stored_def)

lemma ids_add_record:
  "ids_consecutive c \<Longrightarrow> add_record env c record = (x, c1) \<Longrightarrow> ids_consecutive c1"
  using add_record_cases ids_untouched ids_stored by blast

lemma ids_add_loop:
  "ids_consecutive c \<Longrightarrow> add_loop env c r_list = (x, c1) \<Longrightarrow> ids_consecutive c1"
proof (induction r_list arbitrary: c)
  case Nil
  then show ?case by simp
next
  case (Cons rcd r_list)
  obtain y c2 where step: "add_record env c rcd = (y, c2)"
    by (cases "add_record env c rcd")
  have inv2: "ids_consecutive c2"
    using Cons.prems(1) step by (rule ids_add_record)
  show ?case
  proof (cases y)
    case None
    then have "add_loop env c2 r_list = (x, c1)"
      using Cons.prems(2) step by simp
    then show ?thesis using Cons.IH inv2 by blast
  next
    case (Some e)
    then have "c1 = c2" using Cons.prems(2) step by simp
    then show ?thesis using inv2 by simp
  qed
qed

lemma ids_add: "ids_consecutive c \<Longrightarrow> ids_consecutive (snd (add env c r))"
proof -
  assume inv: "ids_consecutive c"
  show ?thesis
  proof (cases "case r of PList xs \<Rightarrow> Inr xs | _ \<Rightarrow> py_list r")
    case (Inl e)
    then show ?thesis using inv by (simp add: add_def)
  next
    case (Inr r_list)
    then have "add env c r = add_loop env c r_list" by (simp add: add_def)
    then show ?thesis using ids_add_loop [OF inv, of env r_list] by (metis prod.collapse)
  qed
qed

lemma ids_adds: "ids_consecutive c \<Longrightarrow> ids_consecutive (adds env c inputs)"
  by (induction inputs arbitrary: c) (simp_all add: ids_add)

lemma rehydrate_frame:
  "rehydrate env c tbl = Inr c1 \<Longrightarrow>
     sqlite c1 = sqlite c \<and> same_config c c1 \<and> inc_id c1 = inc_id c"
proof (induction tbl arbitrary: c)
  case Nil
  then show ?case by (simp add: same_config_refl)
next
  case (Cons rec recs)
  then show ?case
    by (auto simp: same_config_def split: sum.splits dest!: Cons.IH)
qed

lemma init_sqlite_result:
  assumes "init_sqlite env c existing = Inr c1"
  shows "same_config c c1
         \<and> rows (sqlite c1) =
             (if append_on_exist c \<and> \<not> in_memory c
              then (case existing of None \<Rightarrow> [] | Some t \<Rightarrow> t) else [])
         \<and> inc_id c1 = (if append_on_exist c then int (length (rows (sqlite c1))) + 1 else 1)"
  using assms
  by (auto simp: init_sqlite_def Let_def sqlite_commit_def same_config_def
      split: sum.splits if_splits option.splits dest!: rehydrate_frame)


lemma insert_record_storage_failure:
  assumes "hash_unique_key env c (RDict r) = Inr r_hash"
    and "\<not> skip_duplicate c \<or> has_duplicate c r r_hash = Inr False"
    and "comprehension (\<lambda>x. case r (name x) of None \<Rightarrow> Inl KeyError | Some v \<Rightarrow> Inr v)
           (fields_c c) = Inr vals"
    and "sqlite_insert (sqlite c) (inc_id c) vals = Inl e"
  shows "insert_record env c r = (Some e, c)"
proof -
  have "(if \<not> skip_duplicate c then Inr False else has_duplicate c r r_hash) = Inr False"
    using assms(2) by auto
  moreover have "store c r r_hash = (Some e, c)"
    using assms(3,4) by (simp add: store_def)
  ultimately show ?thesis
    using assms(1) by (simp add: insert_record_def)
qed

subsection \<open>Duplicates and the hash table\<close>

lemma tuple_eq_self: "list_all (\<lambda>v. \<not> py_ne v v) ks \<Longrightarrow> tuple_eq ks ks = Inr True"
  by (induction ks) simp_all

lemma bucket_scan_mem:
  "ks \<in> set bucket \<Longrightarrow> list_all (\<lambda>v. \<not> py_ne v v) ks \<Longrightarrow> bucket_scan bucket ks \<noteq> Inr False"
  by (induction bucket) (auto simp: tuple_eq_self split: sum.splits)

lemma bucket_add_new: "\<exists>b. bucket_add hk h ks h = Some b \<and> ks \<in> set b"
  by (simp add: bucket_add_def split: option.splits)

lemma bucket_add_keeps:
  "hk h1 = Some b \<Longrightarrow> ks1 \<in> set b \<Longrightarrow> \<exists>b1. bucket_add hk h ks h1 = Some b1 \<and> ks1 \<in> set b1"
  by (auto simp: bucket_add_def split: option.splits)

lemma key_value_tuple: "key_value fs (RTuple t) = py_index t"
  by (rule ext) (simp add: key_value_def)

lemma insert_record_duplicate:
  assumes "skip_duplicate c"
    and "comprehension (key_value (fields_c c) (RDict r)) (unique_keys c) = Inr ks"
    and "hash_keys c (md5_hexdigest env (concat (map (py_str env) ks))) = Some bucket"
    and "ks \<in> set bucket"
    and "list_all (\<lambda>v. \<not> py_ne v v) ks"
    and "insert_record env c r = (x, c1)"
  shows "untouched c c1"
proof (cases "unique_keys c = []")
  case True
  then show ?thesis using assms(6)
    by (simp add: insert_record_def hash_unique_key_def untouched_def)
next
  case False
  then have h: "hash_unique_key env c (RDict r) = Inr (md5_hexdigest env (concat (map (py_str env) ks)))"
    using assms(2) by (simp add: hash_unique_key_def)
  have hd: "has_duplicate c r (md5_hexdigest env (concat (map (py_str env) ks))) = bucket_scan bucket ks"
    using assms(2,3) by (simp add: has_duplicate_def)
  have ne: "bucket_scan bucket ks \<noteq> Inr False"
    using assms(4,5) by (rule bucket_scan_mem)
  show ?thesis
  proof (cases "bucket_scan bucket ks")
    case (Inl e)
    then show ?thesis using assms(1,6) h hd
      by (simp add: insert_record_def untouched_def)
  next
    case (Inr dup)
    then have "dup" using ne by auto
    then have "commit_on_batch c = (x, c1)"
      using assms(1,6) h hd Inr by (simp add: insert_record_def)
    then show ?thesis using commit_on_batch_frame by blast
  qed
qed

lemma add_record_duplicate:
  assumes "skip_duplicate c"
    and "parse_fields env (fields_c c) rcd Map.empty = Inr r"
    and "comprehension (key_value (fields_c c) (RDict r)) (unique_keys c) = Inr ks"
    and "hash_keys c (md5_hexdigest env (concat (map (py_str env) ks))) = Some bucket"
    and "ks \<in> set bucket"
    and "list_all (\<lambda>v. \<not> py_ne v v) ks"
  shows "untouched c (snd (add_record env c rcd))"
proof -
  obtain y c2 where ins: "insert_record env c r = (y, c2)"
    by (cases "insert_record env c r")
  have u: "untouched c c2"
    using assms(1,3,4,5,6) ins by (rule insert_record_duplicate)
  show ?thesis
  proof (cases y)
    case None
    then show ?thesis using assms(2) ins u by (simp add: add_record_def)
  next
    case (Some e)
    obtain z c3 where hx: "handle_exception c2 e rcd = (z, c3)"
      by (cases "handle_exception c2 e rcd")
    then have "untouched c2 c3" using handle_exception_frame by blast
    then show ?thesis using assms(2) ins u Some hx
      by (simp add: add_record_def untouched_def)
  qed
qed

lemma insert_record_accepts:
  assumes "unique_keys c \<noteq> []"
    and "comprehension (key_value (fields_c c) (RDict r)) (unique_keys c) = Inr ks"
    and "comprehension (\<lambda>x. case r (name x) of None \<Rightarrow> Inl KeyError | Some v \<Rightarrow> Inr v)
           (fields_c c) = Inr vals"
    and "comprehension sqlite_bind vals = Inr bound"
    and "\<not> skip_duplicate c"
    and "insert_record env c r = (x, c1)"
  shows "rows (sqlite c1) = rows (sqlite c) @ [bound @ [PInt (inc_id c)]]"
  using assms
  by (auto simp: insert_record_def hash_unique_key_def store_def Let_def sqlite_insert_def
      commit_on_batch_def sqlite_commit_def split: if_splits)

lemma add_record_accepts:
  assumes "unique_keys c \<noteq> []"
    and "parse_fields env (fields_c c) rcd Map.empty = Inr r"
    and "comprehension (key_value (fields_c c) (RDict r)) (unique_keys c) = Inr ks"
    and "comprehension (\<lambda>x. case r (name x) of None \<Rightarrow> Inl KeyError | Some v \<Rightarrow> Inr v)
           (fields_c c) = Inr vals"
    and "comprehension sqlite_bind vals = Inr bound"
    and "\<not> skip_duplicate c"
  shows "rows (sqlite (snd (add_record env c rcd))) = rows (sqlite c) @ [bound @ [PInt (inc_id c)]]"
proof -
  obtain y c2 where ins: "insert_record env c r = (y, c2)"
    by (cases "insert_record env c r")
  have u: "rows (sqlite c2) = rows (sqlite c) @ [bound @ [PInt (inc_id c)]]"
    using assms(1,3,4,5,6) ins by (rule insert_record_accepts)
  show ?thesis
  proof (cases y)
    case None
    then show ?thesis using assms(2) ins u by (simp add: add_record_def)
  next
    case (Some e)
    obtain z c3 where hx: "handle_exception c2 e rcd = (z, c3)"
      by (cases "handle_exception c2 e rcd")
    then have "untouched c2 c3" using handle_exception_frame by blast
    then show ?thesis using assms(2) ins u Some hx
      by (simp add: add_record_def untouched_def)
  qed
qed

lemma add_single: "snd (add env c (PList [rcd])) = snd (add_record env c rcd)"
  by (simp add: add_def split: prod.splits option.splits)

lemma adds_two:
  "adds env c [PList [rcd1], PList [rcd2]]
     = snd (add_record env (snd (add_record env c rcd1)) rcd2)"
  by (simp add: add_single)

lemma rehydrate_keeps:
  "rehydrate env c tbl = Inr c1 \<Longrightarrow> hash_keys c h1 = Some b \<Longrightarrow> ks1 \<in> set b \<Longrightarrow>
     \<exists>b1. hash_keys c1 h1 = Some b1 \<and> ks1 \<in> set b1"
proof (induction tbl arbitrary: c b)
  case Nil
  then show ?case by simp
next
  case (Cons rec recs)
  from Cons.prems(1) obtain h rk where
    step: "rehydrate env (c\<lparr>hash_keys := bucket_add (hash_keys c) h rk\<rparr>) recs = Inr c1"
    by (auto split: sum.splits)
  obtain b2 where "bucket_add (hash_keys c) h rk h1 = Some b2" "ks1 \<in> set b2"
    using Cons.prems(2,3) bucket_add_keeps [where hk = "hash_keys c" and h = h and ks = rk]
    by blast
  then show ?case
    using Cons.IH [OF step] by simp
qed

lemma rehydrate_buckets:
  "rehydrate env c tbl = Inr c1 \<Longrightarrow> row \<in> set tbl \<Longrightarrow>
   comprehension (py_index row) (unique_keys c) = Inr ks \<Longrightarrow>
     \<exists>b. hash_keys c1 (md5_hexdigest env (concat (map (py_str env) ks))) = Some b \<and> ks \<in> set b"
proof (induction tbl arbitrary: c)
  case Nil
  then show ?case by simp
next
  case (Cons rec recs)
  from Cons.prems(1) obtain h rk where
    h: "hash_unique_key env c (RTuple rec) = Inr h"
    and rk: "comprehension (py_index rec) (unique_keys c) = Inr rk"
    and step: "rehydrate env (c\<lparr>hash_keys := bucket_add (hash_keys c) h rk\<rparr>) recs = Inr c1"
    by (auto split: sum.splits)
  have hv: "h = md5_hexdigest env (concat (map (py_str env) rk))"
    using h rk by (auto simp: hash_unique_key_def key_value_tuple split: if_splits)
  show ?case
  proof (cases "row = rec")
    case True
    then have "ks = rk" using Cons.prems(3) rk by simp
    then obtain b where
      "hash_keys (c\<lparr>hash_keys := bucket_add (hash_keys c) h rk\<rparr>)
         (md5_hexdigest env (concat (map (py_str env) ks))) = Some b" "ks \<in> set b"
      using bucket_add_new [of "hash_keys c" h rk] hv by auto
    then show ?thesis
      using rehydrate_keeps [OF step] by blast
  next
    case False
    then have "row \<in> set recs" using Cons.prems(2) by simp
    then show ?thesis
      using Cons.IH [OF step] Cons.prems(3) by simp
  qed
qed

lemma init_append_buckets:
  assumes "init_sqlite env c (Some tbl) = Inr c1"
    and "append_on_exist c" and "\<not> in_memory c"
    and "row \<in> set tbl"
    and "comprehension (py_index row) (unique_keys c) = Inr ks"
  shows "\<exists>b. hash_keys c1 (md5_hexdigest env (concat (map (py_str env) ks))) = Some b \<and> ks \<in> set b"
proof -
  from assms(1,2,3) obtain conn c2 where
    re: "rehydrate env (c\<lparr>sqlite := conn, hash_keys := Map.empty\<rparr>) tbl = Inr c2"
    and c1: "hash_keys c1 = hash_keys c2"
    by (auto simp: init_sqlite_def Let_def sqlite_commit_def split: sum.splits if_splits)
  show ?thesis
    using rehydrate_buckets [OF re assms(4)] assms(5) c1 by simp
qed

lemma show_int_small: "show_int 1 = ''1''" "show_int 2 = ''2''"
  by code_simp+

lemma init_opened:
  "JsonDataCollector_init env None ''t'' fs False (Some [0]) None None skip False bs
     = (case py_index fs 0 of Inl e \<Rightarrow> Inl e
        | Inr f \<Rightarrow> Inr (opened_collector fs [0] skip False bs [] Map.empty))"
  by (simp add: JsonDataCollector_init_def init_sqlite_def opened_collector_def
      sqlite_commit_def Let_def split: sum.splits)

lemma init_reopened_nan:
  "JsonDataCollector_init sample_env (Some nan_rows) ''t'' [field_x] False (Some [0]) None None
     True True 4096 = Inr (opened_collector [field_x] [0] True True 4096 nan_rows nan_index)"
  by (simp add: JsonDataCollector_init_def init_sqlite_def opened_collector_def
      sqlite_commit_def Let_def nan_rows_def nan_index_def hash_unique_key_def key_value_def
      py_index_def bucket_add_def sample_env_def sample_str_def show_int_small)

lemma init_reopened_abc:
  "JsonDataCollector_init sample_env (Some abc_rows) ''t'' [field_a] False (Some [0]) None None
     True True 4096 = Inr (opened_collector [field_a] [0] True True 4096 abc_rows abc_index)"
  by (simp add: JsonDataCollector_init_def init_sqlite_def opened_collector_def
      sqlite_commit_def Let_def abc_rows_def abc_index_def hash_unique_key_def key_value_def
      py_index_def bucket_add_def sample_env_def sample_str_def)

subsection \<open>A collector without unique keys, and a dictionary as argument\<close>

lemma add_record_no_keys:
  assumes "unique_keys c = []" and "add_record env c rcd = (x, c1)"
  shows "unique_keys c1 = [] \<and> rows (sqlite c1) = rows (sqlite c)"
proof -
  from add_record_cases [OF assms(2)]
  have "same_config c c1" and "untouched c c1 \<or> (\<exists>r. stored env c r c1)"
    by auto
  then show ?thesis
    using assms(1) by (auto simp: same_config_def untouched_def stored_def)
qed

lemma add_loop_no_keys:
  "unique_keys c = [] \<Longrightarrow> rows (sqlite (snd (add_loop env c r_list))) = rows (sqlite c)"
proof (induction r_list arbitrary: c)
  case Nil
  then show ?case by simp
next
  case (Cons rcd r_list)
  obtain y c2 where step: "add_record env c rcd = (y, c2)"
    by (cases "add_record env c rcd")
  from add_record_no_keys [OF Cons.prems step]
  have k: "unique_keys c2 = []" and r: "rows (sqlite c2) = rows (sqlite c)"
    by auto
  show ?case
    using step r Cons.IH [OF k] by (cases y) simp_all
qed

lemma add_no_keys:
  "unique_keys c = [] \<Longrightarrow> rows (sqlite (snd (add env c r))) = rows (sqlite c)"
  by (cases "case r of PList xs \<Rightarrow> Inr xs | _ \<Rightarrow> py_list r")
    (simp_all add: add_def add_loop_no_keys)

lemma add_dict_iterates_keys:
  "add env c (PDict kvs) = add env c (PList (map (\<lambda>kv. PStr (fst kv)) kvs))"
  by (simp add: add_def)

subsection \<open>The default value parser\<close>

lemma walk_append:
  "walk (pre @ post) r = (case walk pre r of None \<Rightarrow> None | Some v \<Rightarrow> walk post v)"
  by (induction pre r rule: walk.induct) (auto split: option.splits)

lemma walk_stops:
  "(\<forall>kvs. v \<noteq> PDict kvs) \<or> (\<exists>kvs. v = PDict kvs \<and> map_of kvs key = None) \<Longrightarrow>
   walk (key # post) v = None"
  by (cases v) auto

lemma float_of_str_3: "float_of_str ''3'' = Inr (FNum 3)"
  by code_simp

section \<open>The properties of the specification\<close>

text \<open>
  C1. With duplicate skipping disabled and no unique keys (the defaults of the
  constructor), \<^verbatim>\<open>add\<close> should store each extracted record. The code computes the digest
  before it looks at the skip flag, and hashing raises when there is no unique key: the
  record \<^verbatim>\<open>{"a": 1}\<close> is not stored, and the error handler receives a \<^verbatim>\<open>RuntimeError\<close>.
\<close>

theorem C1_default_collector_stores_nothing:
  "JsonDataCollector_init sample_env None ''t'' [field_a] True None None (Some quiet_handler)
       False False 4096
     = Inr (fresh_collector [field_a] [] False 4096 (Some quiet_handler))
   \<and> parse sample_env field_a (PDict [(''a'', PInt 1)]) = Inr (PInt 1)
   \<and> rows (sqlite (snd (add sample_env
        (fresh_collector [field_a] [] False 4096 (Some quiet_handler))
        (PList [PDict [(''a'', PInt 1)]])))) = []
   \<and> handler_calls (snd (add sample_env
        (fresh_collector [field_a] [] False 4096 (Some quiet_handler))
        (PList [PDict [(''a'', PInt 1)]])))
       = [(RuntimeError, PDict [(''a'', PInt 1)])]"
proof -
  have "parse sample_env field_a (PDict [(''a'', PInt 1)]) = Inr (PInt 1)"
    by code_simp
  moreover have "rows (sqlite (snd (add sample_env
        (fresh_collector [field_a] [] False 4096 (Some quiet_handler))
        (PList [PDict [(''a'', PInt 1)]])))) = []"
    by code_simp
  moreover have "handler_calls (snd (add sample_env
        (fresh_collector [field_a] [] False 4096 (Some quiet_handler))
        (PList [PDict [(''a'', PInt 1)]])))
       = [(RuntimeError, PDict [(''a'', PInt 1)])]"
    by code_simp
  ultimately show ?thesis
    using init_default [of sample_env "[field_a]" "Some quiet_handler"] by simp
qed

text \<open>
  C2. The specification: a failure of the storage while a record is inserted leaves
  \<^verbatim>\<open>add\<close> as an exception. It does not. The record \<^verbatim>\<open>{"a": "k1", "b": {"x": 1}}\<close> is extracted without
  error, SQLite cannot bind the dictionary and the insert raises; \<^verbatim>\<open>add\<close> returns normally,
  nothing is stored, and a configured handler receives the storage error with the record.
\<close>

theorem C2_storage_error_does_not_propagate:
  "parse sample_env field_a nested_record = Inr (PStr ''k1'')
   \<and> parse sample_env field_b nested_record = Inr (PDict [(''x'', PInt 1)])
   \<and> sqlite_insert (sqlite (fresh_collector [field_a, field_b] [0] False 4096 None)) 1
        [PStr ''k1'', PDict [(''x'', PInt 1)]] = Inl SqliteError
   \<and> fst (add sample_env (fresh_collector [field_a, field_b] [0] False 4096 None)
        (PList [nested_record])) = None
   \<and> rows (sqlite (snd (add sample_env (fresh_collector [field_a, field_b] [0] False 4096 None)
        (PList [nested_record])))) = []
   \<and> fst (add sample_env (fresh_collector [field_a, field_b] [0] False 4096 (Some quiet_handler))
        (PList [nested_record])) = None
   \<and> handler_calls (snd (add sample_env
        (fresh_collector [field_a, field_b] [0] False 4096 (Some quiet_handler))
        (PList [nested_record]))) = [(SqliteError, nested_record)]"
  by code_simp

text \<open>
  C2, as the code has it. When the extraction of a record succeeds and the storage rejects
  its insert with \<open>e\<close>, the \<^verbatim>\<open>except Exception\<close> clause of \<^verbatim>\<open>add\<close> catches \<open>e\<close>: without a
  handler the record is dropped and the loop goes on with the collector unchanged; with a
  handler, the handler is called with \<open>e\<close> and the record, and the loop goes on unless the
  handler raises itself. The table, the hash table and the counter are as before.
\<close>

theorem C2_storage_failure_is_caught:
  assumes "parse_fields env (fields_c c) rcd Map.empty = Inr r"
    and "hash_unique_key env c (RDict r) = Inr r_hash"
    and "\<not> skip_duplicate c \<or> has_duplicate c r r_hash = Inr False"
    and "comprehension (\<lambda>x. case r (name x) of None \<Rightarrow> Inl KeyError | Some v \<Rightarrow> Inr v)
           (fields_c c) = Inr vals"
    and "sqlite_insert (sqlite c) (inc_id c) vals = Inl e"
  shows "add_loop env c (rcd # rest) =
           (case error_handler c of
              None \<Rightarrow> add_loop env c rest
            | Some h \<Rightarrow>
                (case h e rcd of
                   None \<Rightarrow> add_loop env (c\<lparr>handler_calls := handler_calls c @ [(e, rcd)]\<rparr>) rest
                 | Some e1 \<Rightarrow> (Some e1, c\<lparr>handler_calls := handler_calls c @ [(e, rcd)]\<rparr>)))"
proof -
  have "insert_record env c r = (Some e, c)"
    using assms(2-5) by (rule insert_record_storage_failure)
  then have "add_record env c rcd = handle_exception c e rcd"
    using assms(1) by (simp add: add_record_def)
  then show ?thesis
    by (simp add: handle_exception_def split: option.splits)
qed

theorem C2_storage_failure_is_caught_witness:
  "parse_fields sample_env (fields_c (fresh_collector [field_a, field_b] [0] False 4096
       (Some quiet_handler))) nested_record Map.empty
     = Inr [''a'' \<mapsto> PStr ''k1'', ''b'' \<mapsto> PDict [(''x'', PInt 1)]]
   \<and> hash_unique_key sample_env (fresh_collector [field_a, field_b] [0] False 4096
         (Some quiet_handler))
         (RDict [''a'' \<mapsto> PStr ''k1'', ''b'' \<mapsto> PDict [(''x'', PInt 1)]]) = Inr ''k1''
   \<and> \<not> skip_duplicate (fresh_collector [field_a, field_b] [0] False 4096 (Some quiet_handler))
   \<and> sqlite_insert (sqlite (fresh_collector [field_a, field_b] [0] False 4096
         (Some quiet_handler)))
         (inc_id (fresh_collector [field_a, field_b] [0] False 4096 (Some quiet_handler)))
         [PStr ''k1'', PDict [(''x'', PInt 1)]] = Inl SqliteError
   \<and> add_loop sample_env (fresh_collector [field_a, field_b] [0] False 4096 (Some quiet_handler))
         [nested_record]
       = (None, (fresh_collector [field_a, field_b] [0] False 4096 (Some quiet_handler))
                  \<lparr>handler_calls := [(SqliteError, nested_record)]\<rparr>)"
proof -
  let ?c = "fresh_collector [field_a, field_b] [0] False 4096 (Some quiet_handler)"
  let ?r = "[''a'' \<mapsto> PStr ''k1'', ''b'' \<mapsto> PDict [(''x'', PInt 1)]]"
  have p: "parse_fields sample_env (fields_c ?c) nested_record Map.empty = Inr ?r"
    by (simp add: fresh_collector_def field_a_def field_b_def Field_init_def Let_def
        nested_record_def parse_def default_value_parser_def Field_default_value_parser_def)
  have hk: "hash_unique_key sample_env ?c (RDict ?r) = Inr ''k1''"
    by (simp add: fresh_collector_def field_a_def field_b_def Field_init_def Let_def
        hash_unique_key_def key_value_def py_index_def sample_env_def sample_str_def)
  have sk: "\<not> skip_duplicate ?c"
    by (simp add: fresh_collector_def)
  then have sk': "\<not> skip_duplicate ?c \<or> has_duplicate ?c ?r ''k1'' = Inr False"
    by simp
  have vals: "comprehension (\<lambda>x. case ?r (name x) of None \<Rightarrow> Inl KeyError | Some v \<Rightarrow> Inr v)
                (fields_c ?c) = Inr [PStr ''k1'', PDict [(''x'', PInt 1)]]"
    by (simp add: fresh_collector_def field_a_def field_b_def Field_init_def Let_def)
  have ins: "sqlite_insert (sqlite ?c) (inc_id ?c) [PStr ''k1'', PDict [(''x'', PInt 1)]]
               = Inl SqliteError"
    by (simp add: sqlite_insert_def)
  have "add_loop sample_env ?c [nested_record]
          = (None, ?c\<lparr>handler_calls := [(SqliteError, nested_record)]\<rparr>)"
    using C2_storage_failure_is_caught [OF p hk sk' vals ins, of "[]"]
    by (simp add: fresh_collector_def quiet_handler_def)
  then show ?thesis
    using p hk sk ins by simp
qed

text \<open>
  C3. With a batch size of 3, seven accepted records on a fresh collection: the two
  commits of the constructor apart, the code commits when the table holds 2 rows and when
  it holds 5 rows, that is after the 2nd and the 5th record and not after the 3rd and the
  6th; the last two rows are committed by \<^verbatim>\<open>__del__\<close>.
\<close>

theorem C3_commits_after_second_and_fifth:
  "commit_log (sqlite (fresh_collector [field_a] [0] False 3 None)) = [0, 0]
   \<and> commit_log (sqlite (snd (add sample_env (fresh_collector [field_a] [0] False 3 None)
        seven_records))) = [0, 0, 2, 5]
   \<and> length (rows (sqlite (snd (add sample_env (fresh_collector [field_a] [0] False 3 None)
        seven_records)))) = 7
   \<and> commit_log (collector_del (snd (add sample_env
        (fresh_collector [field_a] [0] False 3 None) seven_records))) = [0, 0, 2, 5, 7]"
  by code_simp

text \<open>
  C4. \<^verbatim>\<open>add(r)\<close> for a single dictionary \<^verbatim>\<open>r\<close> should process \<^verbatim>\<open>r\<close> as one record, as
  \<^verbatim>\<open>add([r])\<close> does. The code iterates over \<^verbatim>\<open>list(r)\<close>, the keys of \<^verbatim>\<open>r\<close>: for
  \<^verbatim>\<open>{"a": 1, "b": 2}\<close> it stores two rows whose field is null, where \<^verbatim>\<open>add([r])\<close> stores the
  one row with the value 1.
\<close>

theorem C4_single_dict_is_iterated_by_key:
  "rows (sqlite (snd (add sample_env (fresh_collector [field_a] [0] False 4096 None)
      (PDict [(''a'', PInt 1), (''b'', PInt 2)])))) = [[PNone, PInt 1], [PNone, PInt 2]]
   \<and> rows (sqlite (snd (add sample_env (fresh_collector [field_a] [0] False 4096 None)
      (PList [PDict [(''a'', PInt 1), (''b'', PInt 2)]])))) = [[PInt 1, PInt 1]]"
  by code_simp

text \<open>
  C5. On a collection whose table is empty after construction, whatever the sequence of
  calls of \<^verbatim>\<open>add\<close> and whatever their arguments, the identifiers of the stored rows are
  \<open>1, 2, ..., n\<close> in insertion order, and the counter is \<open>n + 1\<close>: every identifier that
  was consumed belongs to a stored row, so a skipped duplicate or a failed record
  consumed none.
\<close>

theorem C5_identifiers:
  assumes "JsonDataCollector_init env existing nm fs mem uk sk h skip app bs = Inr c0"
    and "rows (sqlite c0) = []"
  shows "map last (rows (sqlite (adds env c0 inputs)))
           = map (\<lambda>k. PInt (int k)) [1..<Suc (length (rows (sqlite (adds env c0 inputs))))]
         \<and> inc_id (adds env c0 inputs) = int (length (rows (sqlite (adds env c0 inputs)))) + 1"
proof -
  have "inc_id c0 = 1"
    using init_sqlite_result [OF assms(1) [unfolded JsonDataCollector_init_def]] assms(2)
    by (simp split: if_splits)
  then have "ids_consecutive c0"
    using assms(2) by (simp add: ids_consecutive_def)
  then have "ids_consecutive (adds env c0 inputs)"
    by (rule ids_adds)
  then show ?thesis
    by (simp add: ids_consecutive_def)
qed

theorem C5_identifiers_witness:
  "JsonDataCollector_init sample_env None ''t'' [field_a] True (Some [0]) None None True False 3
     = Inr (fresh_collector [field_a] [0] True 3 None)
   \<and> rows (sqlite (fresh_collector [field_a] [0] True 3 None)) = []
   \<and> map last (rows (sqlite (adds sample_env (fresh_collector [field_a] [0] True 3 None)
        [seven_records, PInt 0, seven_records])))
       = map (\<lambda>k. PInt (int k)) [1..<Suc (length (rows (sqlite (adds sample_env
            (fresh_collector [field_a] [0] True 3 None) [seven_records, PInt 0, seven_records]))))]
   \<and> inc_id (adds sample_env (fresh_collector [field_a] [0] True 3 None)
        [seven_records, PInt 0, seven_records])
       = int (length (rows (sqlite (adds sample_env (fresh_collector [field_a] [0] True 3 None)
            [seven_records, PInt 0, seven_records])))) + 1
   \<and> length (rows (sqlite (adds sample_env (fresh_collector [field_a] [0] True 3 None)
        [seven_records, PInt 0, seven_records]))) = 7"
proof -
  have cols: "comprehension (py_index [field_a]) [0] = Inr [field_a]"
    by (simp add: py_index_def)
  have h1: "JsonDataCollector_init sample_env None ''t'' [field_a] True (Some [0]) None None
              True False 3 = Inr (fresh_collector [field_a] [0] True 3 None)"
    using cols by (rule init_fresh)
  have h2: "rows (sqlite (fresh_collector [field_a] [0] True 3 None)) = []"
    by (simp add: fresh_collector_def)
  have n: "length (rows (sqlite (adds sample_env (fresh_collector [field_a] [0] True 3 None)
        [seven_records, PInt 0, seven_records]))) = 7"
    by code_simp
  show ?thesis
    using h1 h2 n C5_identifiers [OF h1 h2, of "[seven_records, PInt 0, seven_records]"]
    by blast
qed

text \<open>
  C6. The specification: the same record ingested twice with duplicate skipping enabled
  leaves exactly one row. A \<^verbatim>\<open>Float\<close> unique key whose path is missing parses to NaN, and
  \<^verbatim>\<open>__tuple_eq\<close> compares with \<^verbatim>\<open>!=\<close>, under which NaN differs from itself: the record
  \<^verbatim>\<open>{"a": "k1"}\<close>, whose key \<^verbatim>\<open>x\<close> is missing, is stored twice, by two calls of \<^verbatim>\<open>add\<close> and
  by one call with both copies.
\<close>

theorem C6_nan_key_is_stored_twice:
  "parse sample_env field_x (PDict [(''a'', PStr ''k1'')]) = Inr (PFloat FNaN)
   \<and> rows (sqlite (adds sample_env (fresh_collector [field_x] [0] True 4096 None)
        [PList [PDict [(''a'', PStr ''k1'')]], PList [PDict [(''a'', PStr ''k1'')]]]))
       = [[PNone, PInt 1], [PNone, PInt 2]]
   \<and> rows (sqlite (snd (add sample_env (fresh_collector [field_x] [0] True 4096 None)
        (PList [PDict [(''a'', PStr ''k1'')], PDict [(''a'', PStr ''k1'')]]))))
       = [[PNone, PInt 1], [PNone, PInt 2]]"
  by code_simp

text \<open>
  C6, as the code has it. A record whose first copy is stored, with the next identifier:
  when duplicate skipping is enabled and every unique-key value of the record equals
  itself under \<^verbatim>\<open>!=\<close> (none is NaN), the second copy stores nothing, so that exactly one row
  was added; when skipping is disabled, the second copy is stored as well, with the
  following identifier. (A first copy is stored only if the unique-key set is non-empty.)
\<close>

theorem C6_duplicate_idempotence:
  assumes "parse_fields env (fields_c c) rcd Map.empty = Inr r"
    and "comprehension (key_value (fields_c c) (RDict r)) (unique_keys c) = Inr ks"
    and "rows (sqlite (adds env c [PList [rcd]])) \<noteq> rows (sqlite c)"
  shows "\<exists>row. rows (sqlite (adds env c [PList [rcd]])) = rows (sqlite c) @ [row @ [PInt (inc_id c)]]
           \<and> (skip_duplicate c \<and> list_all (\<lambda>v. \<not> py_ne v v) ks \<longrightarrow>
                rows (sqlite (adds env c [PList [rcd], PList [rcd]]))
                  = rows (sqlite c) @ [row @ [PInt (inc_id c)]])
           \<and> (\<not> skip_duplicate c \<longrightarrow>
                rows (sqlite (adds env c [PList [rcd], PList [rcd]]))
                  = rows (sqlite c) @ [row @ [PInt (inc_id c)], row @ [PInt (inc_id c + 1)]])"
proof -
  define c1 where "c1 = snd (add_record env c rcd)"
  define c2 where "c2 = snd (add_record env c1 rcd)"
  have one: "adds env c [PList [rcd]] = c1"
    by (simp add: c1_def add_single)
  have two: "adds env c [PList [rcd], PList [rcd]] = c2"
    by (simp add: c2_def c1_def add_single)
  have first: "add_record env c rcd = (fst (add_record env c rcd), c1)"
    by (simp add: c1_def)
  from add_record_cases [OF first] assms(1,3) one
  have cfg: "same_config c c1" and st: "stored env c r c1"
    by (auto simp: untouched_def)
  from st assms(2) obtain vals bound where
    ne: "unique_keys c \<noteq> []"
    and vals: "comprehension (\<lambda>x. case r (name x) of None \<Rightarrow> Inl KeyError | Some v \<Rightarrow> Inr v)
                 (fields_c c) = Inr vals"
    and bound: "comprehension sqlite_bind vals = Inr bound"
    and rows1: "rows (sqlite c1) = rows (sqlite c) @ [bound @ [PInt (inc_id c)]]"
    and inc1: "inc_id c1 = inc_id c + 1"
    and hk1: "hash_keys c1 =
                bucket_add (hash_keys c) (md5_hexdigest env (concat (map (py_str env) ks))) ks"
    by (auto simp: stored_def)
  have f1: "fields_c c1 = fields_c c" and u1: "unique_keys c1 = unique_keys c"
    and s1: "skip_duplicate c1 = skip_duplicate c"
    using cfg by (simp_all add: same_config_def)
  have skip_case: "rows (sqlite c2) = rows (sqlite c1)"
    if "skip_duplicate c" and "list_all (\<lambda>v. \<not> py_ne v v) ks"
  proof -
    obtain b where "hash_keys c1 (md5_hexdigest env (concat (map (py_str env) ks))) = Some b"
      and "ks \<in> set b"
      using hk1 bucket_add_new [of "hash_keys c" _ ks] by auto
    then have "untouched c1 (snd (add_record env c1 rcd))"
      using add_record_duplicate [of c1 env rcd r ks b] that assms(1,2) f1 u1 s1 by simp
    then show ?thesis by (simp add: c2_def untouched_def)
  qed
  have keep_case: "rows (sqlite c2) = rows (sqlite c1) @ [bound @ [PInt (inc_id c1)]]"
    if "\<not> skip_duplicate c"
    using add_record_accepts [of c1 env rcd r ks vals bound] that assms(1,2) ne vals bound f1 u1 s1
    by (simp add: c2_def)
  show ?thesis
    using one two rows1 inc1 skip_case keep_case by auto
qed

theorem C6_duplicate_idempotence_witness:
  "parse_fields sample_env (fields_c (fresh_collector [field_a] [0] True 4096 None))
       (PDict [(''a'', PStr ''k1'')]) Map.empty = Inr [''a'' \<mapsto> PStr ''k1'']
   \<and> comprehension (key_value (fields_c (fresh_collector [field_a] [0] True 4096 None))
         (RDict [''a'' \<mapsto> PStr ''k1''])) (unique_keys (fresh_collector [field_a] [0] True 4096 None))
       = Inr [PStr ''k1'']
   \<and> rows (sqlite (adds sample_env (fresh_collector [field_a] [0] True 4096 None)
         [PList [PDict [(''a'', PStr ''k1'')]]]))
       \<noteq> rows (sqlite (fresh_collector [field_a] [0] True 4096 None))
   \<and> skip_duplicate (fresh_collector [field_a] [0] True 4096 None)
   \<and> list_all (\<lambda>v. \<not> py_ne v v) [PStr ''k1'']
   \<and> rows (sqlite (adds sample_env (fresh_collector [field_a] [0] True 4096 None)
         [PList [PDict [(''a'', PStr ''k1'')]], PList [PDict [(''a'', PStr ''k1'')]]]))
       = [[PStr ''k1'', PInt 1]]
   \<and> \<not> skip_duplicate (fresh_collector [field_a] [0] False 4096 None)
   \<and> rows (sqlite (adds sample_env (fresh_collector [field_a] [0] False 4096 None)
         [PList [PDict [(''a'', PStr ''k1'')]], PList [PDict [(''a'', PStr ''k1'')]]]))
       = [[PStr ''k1'', PInt 1], [PStr ''k1'', PInt 2]]"
proof -
  let ?rcd = "PDict [(''a'', PStr ''k1'')]"
  let ?r = "[''a'' \<mapsto> PStr ''k1'']"
  have p: "parse_fields sample_env (fields_c (fresh_collector [field_a] [0] skip 4096 None))
             ?rcd Map.empty = Inr ?r" for skip
    by (simp add: fresh_collector_def field_a_def Field_init_def Let_def parse_def
        default_value_parser_def Field_default_value_parser_def)
  have k: "comprehension (key_value (fields_c (fresh_collector [field_a] [0] skip 4096 None))
             (RDict ?r)) (unique_keys (fresh_collector [field_a] [0] skip 4096 None))
           = Inr [PStr ''k1'']" for skip
    by (simp add: fresh_collector_def field_a_def Field_init_def Let_def key_value_def
        py_index_def)
  have one: "rows (sqlite (adds sample_env (fresh_collector [field_a] [0] True 4096 None)
               [PList [?rcd]])) = [[PStr ''k1'', PInt 1]]"
    by code_simp
  have one': "rows (sqlite (adds sample_env (fresh_collector [field_a] [0] False 4096 None)
               [PList [?rcd]])) = [[PStr ''k1'', PInt 1]]"
    by code_simp
  have e: "rows (sqlite (fresh_collector [field_a] [0] skip 4096 None)) = []"
    and i: "inc_id (fresh_collector [field_a] [0] skip 4096 None) = 1"
    and sk: "skip_duplicate (fresh_collector [field_a] [0] skip 4096 None) = skip" for skip
    by (simp_all add: fresh_collector_def)
  have ne: "rows (sqlite (adds sample_env (fresh_collector [field_a] [0] True 4096 None)
              [PList [?rcd]])) \<noteq> rows (sqlite (fresh_collector [field_a] [0] True 4096 None))"
    using one e by simp
  have ne': "rows (sqlite (adds sample_env (fresh_collector [field_a] [0] False 4096 None)
              [PList [?rcd]])) \<noteq> rows (sqlite (fresh_collector [field_a] [0] False 4096 None))"
    using one' e by simp
  have sn: "list_all (\<lambda>v. \<not> py_ne v v) [PStr ''k1'']"
    by (simp add: py_ne_def)
  have a: "rows (sqlite (adds sample_env (fresh_collector [field_a] [0] True 4096 None)
             [PList [?rcd], PList [?rcd]])) = [[PStr ''k1'', PInt 1]]"
    using C6_duplicate_idempotence [OF p k ne] one e i sk sn by auto
  have b: "rows (sqlite (adds sample_env (fresh_collector [field_a] [0] False 4096 None)
             [PList [?rcd], PList [?rcd]])) = [[PStr ''k1'', PInt 1], [PStr ''k1'', PInt 2]]"
    using C6_duplicate_idempotence [OF p k ne'] one' e i sk by auto
  show ?thesis
    using p k ne sn a b sk by simp
qed

text \<open>
  C7. The specification: after a collection holding the rows of A, B and C is closed and
  reopened in append mode with duplicate skipping, a duplicate of A stores no row. With the
  \<^verbatim>\<open>Float\<close> unique key \<^verbatim>\<open>x\<close> and A the record \<^verbatim>\<open>{"a": "k1"}\<close>, whose key is missing: the first
  session stores NaN as NULL; the reopened collection reads \<^verbatim>\<open>None\<close> back, A parses to NaN
  again, and A is stored a second time, as the fourth row with identifier 4.
\<close>

theorem C7_nan_key_is_appended_again:
  "JsonDataCollector_init sample_env None ''t'' [field_x] False (Some [0]) None None True False 4096
     = Inr (opened_collector [field_x] [0] True False 4096 [] Map.empty)
   \<and> durable (collector_del (snd (add sample_env
        (opened_collector [field_x] [0] True False 4096 [] Map.empty)
        (PList [PDict [(''a'', PStr ''k1'')], PDict [(''x'', PStr ''1'')],
                PDict [(''x'', PStr ''2'')]])))) = nan_rows
   \<and> JsonDataCollector_init sample_env (Some nan_rows) ''t'' [field_x] False (Some [0]) None None
        True True 4096 = Inr (opened_collector [field_x] [0] True True 4096 nan_rows nan_index)
   \<and> rows (sqlite (snd (add sample_env
        (opened_collector [field_x] [0] True True 4096 nan_rows nan_index)
        (PList [PDict [(''a'', PStr ''k1'')]])))) = nan_rows @ [[PNone, PInt 4]]"
proof -
  have a: "JsonDataCollector_init sample_env None ''t'' [field_x] False (Some [0]) None None
             True False 4096 = Inr (opened_collector [field_x] [0] True False 4096 [] Map.empty)"
    by (simp add: init_opened py_index_def)
  have b: "durable (collector_del (snd (add sample_env
        (opened_collector [field_x] [0] True False 4096 [] Map.empty)
        (PList [PDict [(''a'', PStr ''k1'')], PDict [(''x'', PStr ''1'')],
                PDict [(''x'', PStr ''2'')]])))) = nan_rows"
    by code_simp
  have c: "rows (sqlite (snd (add sample_env
        (opened_collector [field_x] [0] True True 4096 nan_rows nan_index)
        (PList [PDict [(''a'', PStr ''k1'')]])))) = nan_rows @ [[PNone, PInt 4]]"
    by code_simp
  show ?thesis
    using a b c init_reopened_nan by simp
qed

text \<open>
  C7, as the code has it. A collection opened in append mode, with duplicate skipping,
  on a file whose table is \<open>tbl\<close>: a record whose unique-key values are those read back
  from some row of \<open>tbl\<close>, each equal to itself under \<^verbatim>\<open>!=\<close> (none is NaN), stores nothing,
  and the table is still \<open>tbl\<close>; the record ingested next, if it is stored, gets the
  identifier \<open>length tbl + 1\<close>, which is 4 for three rows.
\<close>

theorem C7_append_rehydration:
  assumes "JsonDataCollector_init env (Some tbl) nm fs False (Some uks) sk h True True bs = Inr c0"
    and "row \<in> set tbl"
    and "parse_fields env fs rcd Map.empty = Inr r"
    and "comprehension (key_value fs (RDict r)) uks = Inr ks"
    and "comprehension (py_index row) uks = Inr ks"
    and "list_all (\<lambda>v. \<not> py_ne v v) ks"
  shows "rows (sqlite c0) = tbl
         \<and> rows (sqlite (adds env c0 [PList [rcd]])) = tbl
         \<and> (rows (sqlite (adds env c0 [PList [rcd], PList [rcd2]])) \<noteq> tbl \<longrightarrow>
              (\<exists>vals. rows (sqlite (adds env c0 [PList [rcd], PList [rcd2]]))
                         = tbl @ [vals @ [PInt (int (length tbl) + 1)]]))"
proof -
  note init = assms(1) [unfolded JsonDataCollector_init_def]
  from init_sqlite_result [OF init]
  have cfg: "fields_c c0 = fs" "unique_keys c0 = uks" "skip_duplicate c0"
    and rows0: "rows (sqlite c0) = tbl"
    and inc0: "inc_id c0 = int (length tbl) + 1"
    by (simp_all add: same_config_def)
  obtain b where b: "hash_keys c0 (md5_hexdigest env (concat (map (py_str env) ks))) = Some b"
    and mem: "ks \<in> set b"
    using init_append_buckets [OF init _ _ assms(2), of ks] assms(5) by auto
  define c1 where "c1 = snd (add_record env c0 rcd)"
  define c2 where "c2 = snd (add_record env c1 rcd2)"
  have "untouched c0 c1"
    unfolding c1_def
    using add_record_duplicate [of c0 env rcd r ks b] cfg assms(3,4,6) b mem by simp
  then have rows1: "rows (sqlite c1) = tbl" and inc1: "inc_id c1 = int (length tbl) + 1"
    using rows0 inc0 by (simp_all add: untouched_def)
  have second: "add_record env c1 rcd2 = (fst (add_record env c1 rcd2), c2)"
    by (simp add: c2_def)
  from add_record_cases [OF second]
  have "untouched c1 c2 \<or> (\<exists>r2. stored env c1 r2 c2)"
    by auto
  then have "rows (sqlite c2) = tbl
             \<or> (\<exists>vals. rows (sqlite c2) = tbl @ [vals @ [PInt (int (length tbl) + 1)]])"
    using rows1 inc1 by (auto simp: untouched_def stored_def)
  moreover have "adds env c0 [PList [rcd]] = c1"
    by (simp add: c1_def add_single)
  moreover have "adds env c0 [PList [rcd], PList [rcd2]] = c2"
    by (simp add: c2_def c1_def add_single)
  ultimately show ?thesis
    using rows0 rows1 by auto
qed

theorem C7_append_rehydration_witness:
  "JsonDataCollector_init sample_env (Some abc_rows) ''t'' [field_a] False (Some [0]) None None
     True True 4096 = Inr (opened_collector [field_a] [0] True True 4096 abc_rows abc_index)
   \<and> [PStr ''A'', PInt 1] \<in> set abc_rows
   \<and> parse_fields sample_env [field_a] (PDict [(''a'', PStr ''A'')]) Map.empty
       = Inr [''a'' \<mapsto> PStr ''A'']
   \<and> comprehension (key_value [field_a] (RDict [''a'' \<mapsto> PStr ''A''])) [0] = Inr [PStr ''A'']
   \<and> comprehension (py_index [PStr ''A'', PInt 1]) [0] = Inr [PStr ''A'']
   \<and> list_all (\<lambda>v. \<not> py_ne v v) [PStr ''A'']
   \<and> rows (sqlite (adds sample_env (opened_collector [field_a] [0] True True 4096 abc_rows
        abc_index) [PList [PDict [(''a'', PStr ''A'')]]])) = abc_rows
   \<and> rows (sqlite (adds sample_env (opened_collector [field_a] [0] True True 4096 abc_rows
        abc_index) [PList [PDict [(''a'', PStr ''A'')]], PList [PDict [(''a'', PStr ''D'')]]]))
       \<noteq> abc_rows
   \<and> (\<exists>vals. rows (sqlite (adds sample_env (opened_collector [field_a] [0] True True 4096
          abc_rows abc_index)
          [PList [PDict [(''a'', PStr ''A'')]], PList [PDict [(''a'', PStr ''D'')]]]))
         = abc_rows @ [vals @ [PInt 4]])"
proof -
  let ?c0 = "opened_collector [field_a] [0] True True 4096 abc_rows abc_index"
  let ?r = "[''a'' \<mapsto> PStr ''A'']"
  have m: "[PStr ''A'', PInt 1] \<in> set abc_rows"
    by (simp add: abc_rows_def)
  have p: "parse_fields sample_env [field_a] (PDict [(''a'', PStr ''A'')]) Map.empty = Inr ?r"
    by (simp add: field_a_def Field_init_def Let_def parse_def default_value_parser_def
        Field_default_value_parser_def)
  have k: "comprehension (key_value [field_a] (RDict ?r)) [0] = Inr [PStr ''A'']"
    by (simp add: field_a_def Field_init_def Let_def key_value_def py_index_def)
  have t: "comprehension (py_index [PStr ''A'', PInt 1]) [0] = Inr [PStr ''A'']"
    by (simp add: py_index_def)
  have sn: "list_all (\<lambda>v. \<not> py_ne v v) [PStr ''A'']"
    by (simp add: py_ne_def)
  have ne: "rows (sqlite (adds sample_env ?c0
              [PList [PDict [(''a'', PStr ''A'')]], PList [PDict [(''a'', PStr ''D'')]]]))
            \<noteq> abc_rows"
    by code_simp
  have len: "int (length abc_rows) + 1 = 4"
    by (simp add: abc_rows_def)
  show ?thesis
    using init_reopened_abc m p k t sn ne len
      C7_append_rehydration [OF init_reopened_abc m p k t sn, of "PDict [(''a'', PStr ''D'')]"]
    by simp
qed

text \<open>
  C8. A field that uses the default value parser of its class: a \<^verbatim>\<open>Float\<close> field whose
  extracted value is the string \<^verbatim>\<open>"3"\<close> parses to the float 3.0; when the dotted path is
  missing, a \<^verbatim>\<open>Float\<close> field parses to NaN and a field of every other class (\<^verbatim>\<open>Int\<close>,
  \<^verbatim>\<open>String\<close>, \<^verbatim>\<open>Field\<close>, \<^verbatim>\<open>DateTime\<close>) to \<^verbatim>\<open>None\<close>.
\<close>

theorem C8_real_typing:
  "(value_parser f = None \<and> cls f = Float_cls
      \<and> Field_default_value_parser f record1 = Inr (PStr ''3'')
      \<longrightarrow> parse env f record1 = Inr (PFloat (FNum 3)))
   \<and> (value_parser f = None \<and> walk (splited_key_names f) record2 = None
      \<longrightarrow> parse env f record2 = (if cls f = Float_cls then Inr (PFloat FNaN) else Inr PNone))"
  by (cases "cls f")
    (simp_all add: parse_def default_value_parser_def Float_default_value_parser_def
      Int_default_value_parser_def String_default_value_parser_def
      Field_default_value_parser_def float_of_str_3)

theorem C8_real_typing_witness:
  "value_parser field_x = None \<and> cls field_x = Float_cls
   \<and> Field_default_value_parser field_x (PDict [(''x'', PStr ''3'')]) = Inr (PStr ''3'')
   \<and> walk (splited_key_names field_x) (PDict [(''y'', PInt 1)]) = None
   \<and> parse sample_env field_x (PDict [(''x'', PStr ''3'')]) = Inr (PFloat (FNum 3))
   \<and> parse sample_env field_x (PDict [(''y'', PInt 1)]) = Inr (PFloat FNaN)"
proof -
  have a: "value_parser field_x = None \<and> cls field_x = Float_cls"
    by (simp add: field_x_def Field_init_def Let_def)
  have b: "Field_default_value_parser field_x (PDict [(''x'', PStr ''3'')]) = Inr (PStr ''3'')"
    by (simp add: field_x_def Field_init_def Let_def Field_default_value_parser_def)
  have c: "walk (splited_key_names field_x) (PDict [(''y'', PInt 1)]) = None"
    by (simp add: field_x_def Field_init_def Let_def)
  show ?thesis
    using a b c
      C8_real_typing [of field_x "PDict [(''x'', PStr ''3'')]" sample_env "PDict [(''y'', PInt 1)]"]
    by simp
qed

text \<open>
  C9. The default value parser of \<^verbatim>\<open>Field\<close>: when the walk along the path reaches, after
  some segments, a value that is not a dictionary or a dictionary without the next
  segment, the parser returns \<^verbatim>\<open>None\<close> and raises nothing, whatever the default value, the
  validator and the converter of the field. The path \<^verbatim>\<open>"a.b"\<close> on \<^verbatim>\<open>{"a": {"x": 1}}\<close> is the
  instance checked after the theorem.
\<close>

theorem C9_unknown_path:
  assumes "splited_key_names f = pre @ key # post"
    and "walk pre rcd = Some v"
    and "(\<forall>kvs. v \<noteq> PDict kvs) \<or> (\<exists>kvs. v = PDict kvs \<and> map_of kvs key = None)"
  shows "Field_default_value_parser f rcd = Inr PNone"
proof -
  have "walk (key # post) v = None"
    using assms(3) by (rule walk_stops)
  then have "walk (splited_key_names f) rcd = None"
    using assms(1,2) by (simp add: walk_append)
  then show ?thesis
    by (simp add: Field_default_value_parser_def)
qed

theorem C9_unknown_path_witness:
  "splited_key_names (Field_init Field_cls ''c'' (Some ''a.b'') (PInt 7) None None None)
     = [''a''] @ ''b'' # []
   \<and> walk [''a''] (PDict [(''a'', PDict [(''x'', PInt 1)])]) = Some (PDict [(''x'', PInt 1)])
   \<and> map_of [(''x'', PInt 1)] ''b'' = None
   \<and> Field_default_value_parser (Field_init Field_cls ''c'' (Some ''a.b'') (PInt 7) None None None)
        (PDict [(''a'', PDict [(''x'', PInt 1)])]) = Inr PNone"
proof -
  have s: "splited_key_names (Field_init Field_cls ''c'' (Some ''a.b'') (PInt 7) None None None)
             = [''a''] @ ''b'' # []"
    by (simp add: Field_init_def Let_def)
  have w: "walk [''a''] (PDict [(''a'', PDict [(''x'', PInt 1)])]) = Some (PDict [(''x'', PInt 1)])"
    by simp
  have m: "map_of [(''x'', PInt 1)] ''b'' = None"
    by simp
  have d: "(\<forall>kvs. PDict [(''x'', PInt 1)] \<noteq> PDict kvs)
           \<or> (\<exists>kvs. PDict [(''x'', PInt 1)] = PDict kvs \<and> map_of kvs ''b'' = None)"
    using m by simp
  show ?thesis
    using s w m C9_unknown_path [OF s w d] by simp
qed

text \<open>
  C10. With no unique key: constructing a collector in append mode over a table that holds
  at least one row raises, the \<^verbatim>\<open>RuntimeError\<close> of \<^verbatim>\<open>__hash_unique_key\<close> on the first row
  (an \<^verbatim>\<open>IndexError\<close> instead when a sorted key is out of range, which is looked up
  earlier); in truncate mode, in memory, or over an absent or empty table, the
  construction succeeds whenever the sorted keys are in range, with an empty table, an
  empty hash table and the counter at 1.
\<close>

theorem C10_append_without_unique_keys:
  "((case uk of None \<Rightarrow> [] | Some ks \<Rightarrow> ks) = [] \<longrightarrow>
      JsonDataCollector_init env (Some (row # tbl)) nm fs False uk sk h skip True bs
        = (case comprehension (comprehension (py_index fs))
                  (case sk of None \<Rightarrow> [] | Some ks \<Rightarrow> ks) of
             Inl e \<Rightarrow> Inl e
           | Inr cols \<Rightarrow> Inl RuntimeError))
   \<and> ((case uk of None \<Rightarrow> [] | Some ks \<Rightarrow> ks) = []
        \<and> comprehension (comprehension (py_index fs))
             (case sk of None \<Rightarrow> [] | Some ks \<Rightarrow> ks) = Inr cols
        \<and> (\<not> app \<or> mem \<or> existing = None \<or> existing = Some [])
      \<longrightarrow> (\<exists>c. JsonDataCollector_init env existing nm fs mem uk sk h skip app bs = Inr c
                \<and> rows (sqlite c) = [] \<and> inc_id c = 1 \<and> hash_keys c = Map.empty))"
  by (auto simp: JsonDataCollector_init_def init_sqlite_def Let_def sqlite_commit_def
      hash_unique_key_def split: sum.splits option.splits)

theorem C10_append_without_unique_keys_witness:
  "(case (None :: int list option) of None \<Rightarrow> [] | Some ks \<Rightarrow> ks) = []
   \<and> comprehension (comprehension (py_index [field_a]))
        (case (None :: int list list option) of None \<Rightarrow> [] | Some ks \<Rightarrow> ks) = Inr []
   \<and> JsonDataCollector_init sample_env (Some ([PStr ''k1'', PInt 1] # [])) ''t'' [field_a]
        False None None None False True 4096 = Inl RuntimeError
   \<and> (\<exists>c. JsonDataCollector_init sample_env (Some [[PStr ''k1'', PInt 1]]) ''t'' [field_a]
              False None None None False False 4096 = Inr c
          \<and> rows (sqlite c) = [] \<and> inc_id c = 1 \<and> hash_keys c = Map.empty)
   \<and> (\<exists>c. JsonDataCollector_init sample_env (Some []) ''t'' [field_a]
              False None None None False True 4096 = Inr c
          \<and> rows (sqlite c) = [] \<and> inc_id c = 1 \<and> hash_keys c = Map.empty)"
proof -
  have uk: "(case (None :: int list option) of None \<Rightarrow> [] | Some ks \<Rightarrow> ks) = []"
    by simp
  have sk: "comprehension (comprehension (py_index [field_a]))
              (case (None :: int list list option) of None \<Rightarrow> [] | Some ks \<Rightarrow> ks) = Inr []"
    by simp
  have a: "JsonDataCollector_init sample_env (Some ([PStr ''k1'', PInt 1] # [])) ''t'' [field_a]
             False None None None False True 4096 = Inl RuntimeError"
    using uk sk
      C10_append_without_unique_keys [where uk = None and env = sample_env
        and row = "[PStr ''k1'', PInt 1]" and tbl = "[]" and nm = "''t''" and fs = "[field_a]"
        and sk = None and h = None and skip = False and bs = 4096]
    by simp
  have b: "\<exists>c. JsonDataCollector_init sample_env (Some [[PStr ''k1'', PInt 1]]) ''t'' [field_a]
              False None None None False False 4096 = Inr c
          \<and> rows (sqlite c) = [] \<and> inc_id c = 1 \<and> hash_keys c = Map.empty"
    using uk sk
      C10_append_without_unique_keys [where uk = None and env = sample_env and nm = "''t''"
        and fs = "[field_a]" and sk = None and h = None and skip = False and bs = 4096
        and cols = "[]" and app = False and mem = False
        and existing = "Some [[PStr ''k1'', PInt 1]]"]
    by simp
  have c: "\<exists>c. JsonDataCollector_init sample_env (Some []) ''t'' [field_a]
              False None None None False True 4096 = Inr c
          \<and> rows (sqlite c) = [] \<and> inc_id c = 1 \<and> hash_keys c = Map.empty"
    using uk sk
      C10_append_without_unique_keys [where uk = None and env = sample_env and nm = "''t''"
        and fs = "[field_a]" and sk = None and h = None and skip = False and bs = 4096
        and cols = "[]" and app = True and mem = False and existing = "Some []"]
    by simp
  show ?thesis
    using uk sk a b c by blast
qed

end
